theory Spec2Isabelle
  imports Main "HOL-Library.Sublist" "HOL-Library.Char_ord" "HOL-Library.List_Lexorder"
begin

section \<open>Python values and string primitives used by dockmon\_cli.py\<close>

text \<open>
  Strings are byte lists; the non-ASCII glyphs of the source are their UTF-8 bytes.
  An instant (\<open>datetime\<close>) is a count of microseconds, a \<open>timedelta\<close> their difference.
\<close>

type_synonym datetime = int

datatype pyval = PNone | PBool bool | PStr string | PDatetime datetime

text \<open>Python truthiness, as \<open>if x\<close> and \<open>not x\<close> read a value.\<close>

fun truthy :: "pyval \<Rightarrow> bool" where
  "truthy PNone = False"
| "truthy (PBool b) = b"
| "truthy (PStr s) = (s \<noteq> [])"
| "truthy (PDatetime d) = True"

datatype error = KeyError | AttributeError | IndexError | TypeError | HTTPError

text \<open>A \<open>dict\<close> with string keys: \<open>d[k]\<close> raises on a missing key, \<open>d.get(k)\<close> gives None.\<close>

type_synonym pydict = "string \<rightharpoonup> pyval"

definition subscript :: "pydict \<Rightarrow> string \<Rightarrow> error + pyval" where
  "subscript d k = (case d k of None \<Rightarrow> Inl KeyError | Some v \<Rightarrow> Inr v)"

definition dict_get :: "pydict \<Rightarrow> string \<Rightarrow> pyval" where
  "dict_get d k = (case d k of None \<Rightarrow> PNone | Some v \<Rightarrow> v)"

text \<open>\<open>str(n)\<close> for an integer: decimal digits, a minus sign for a negative one.\<close>

definition digit_char :: "nat \<Rightarrow> char" where
  "digit_char n = ''0123456789'' ! n"

function str_nat :: "nat \<Rightarrow> string" where
  "str_nat n = (if n < 10 then [digit_char n] else str_nat (n div 10) @ [digit_char (n mod 10)])"
  by pat_completeness auto
termination
  by (relation "measure (\<lambda>n. n)") auto

declare str_nat.simps [simp del]

definition str_int :: "int \<Rightarrow> string" where
  "str_int i = (if i < 0 then CHR ''-'' # str_nat (nat (- i)) else str_nat (nat i))"

text \<open>\<open>s.rstrip(c)\<close>, \<open>s.split(c)\<close> and \<open>s.split(c, 1)\<close> for a one-character \<open>c\<close>.\<close>

definition rstrip_chr :: "char \<Rightarrow> string \<Rightarrow> string" where
  "rstrip_chr c s = rev (dropWhile (\<lambda>x. x = c) (rev s))"

fun split_chr :: "char \<Rightarrow> string \<Rightarrow> string list" where
  "split_chr c [] = [[]]"
| "split_chr c (x # xs) =
     (if x = c then [] # split_chr c xs
      else (case split_chr c xs of [] \<Rightarrow> [[x]] | p # ps \<Rightarrow> (x # p) # ps))"

definition split_chr_once :: "char \<Rightarrow> string \<Rightarrow> string list" where
  "split_chr_once c s =
     (if c \<in> set s then [takeWhile (\<lambda>x. x \<noteq> c) s, tl (dropWhile (\<lambda>x. x \<noteq> c) s)] else [s])"

text \<open>
  \<open>s.replace(old, new)\<close>: the occurrences of \<open>old\<close> from the left, not overlapping.
  The source only calls it with a non-empty \<open>old\<close>; an empty one leaves \<open>s\<close> as it is here.
\<close>

function replace_str :: "string \<Rightarrow> string \<Rightarrow> string \<Rightarrow> string" where
  "replace_str old new [] = []"
| "replace_str old new (x # xs) =
     (if old \<noteq> [] \<and> prefix old (x # xs)
      then new @ replace_str old new (drop (length old) (x # xs))
      else x # replace_str old new xs)"
  by pat_completeness auto
termination
  by (relation "measure (\<lambda>(old, new, s). length s)") auto

section \<open>Container.human\_time\_diff and human\_time\_diff\_future\<close>

text \<open>
  \<open>int(delta.total_seconds())\<close>. \<open>total_seconds\<close> divides the microseconds of the
  difference by \<open>10**6\<close> into a double: the quotient rounded to the nearest number with
  a 53-bit mantissa, ties to the even mantissa, sign and magnitude apart. \<open>int\<close> then
  drops the fraction of that double. \<open>ilog2 q\<close> is the binary exponent of a quotient
  whose whole part is \<open>q\<close>; \<open>float_seconds d\<close> is the whole part of the double for a
  magnitude of \<open>d\<close> microseconds.
\<close>

function ilog2 :: "int \<Rightarrow> nat" where
  "ilog2 n = (if n < 2 then 0 else Suc (ilog2 (n div 2)))"
  by pat_completeness auto
termination
  by (relation "measure (\<lambda>n. nat n)") auto

declare ilog2.simps [simp del]

definition float_seconds :: "int \<Rightarrow> int" where
  "float_seconds d =
     (let q = d div 1000000 in
      if q = 0 then 0
      else
        (let e = ilog2 q in
         if e \<le> 52 then
           (let sh = 52 - e; n = d * 2 ^ sh; m = n div 1000000; r = n mod 1000000;
                m' = (if 1000000 < 2 * r \<or> (2 * r = 1000000 \<and> odd m) then m + 1 else m)
            in m' div 2 ^ sh)
         else
           (let sh = e - 52; den = 1000000 * 2 ^ sh; m = d div den; r = d mod den;
                m' = (if den < 2 * r \<or> (2 * r = den \<and> odd m) then m + 1 else m)
            in m' * 2 ^ sh)))"

definition total_seconds_int :: "int \<Rightarrow> int" where
  "total_seconds_int delta =
     (if delta < 0 then - float_seconds (- delta) else float_seconds delta)"

definition human_time_diff_future :: "int \<Rightarrow> string" where
  "human_time_diff_future seconds =
     (if seconds < 60 then ''in '' @ str_int seconds @ '' seconds''
      else let minutes = seconds div 60 in
      if minutes < 60 then (if minutes = 1 then ''in 1 minute'' else ''in '' @ str_int minutes @ '' minutes'')
      else let hours = minutes div 60 in
      if hours < 24 then (if hours = 1 then ''in 1 hour'' else ''in '' @ str_int hours @ '' hours'')
      else let days = hours div 24 in
      if days < 7 then (if days = 1 then ''tomorrow'' else ''in '' @ str_int days @ '' days'')
      else let weeks = days div 7 in
      if weeks < 5 then (if weeks = 1 then ''in 1 week'' else ''in '' @ str_int weeks @ '' weeks'')
      else let months = days div 30 in
      if months < 12 then (if months = 1 then ''in 1 month'' else ''in '' @ str_int months @ '' months'')
      else let years = days div 365 in
      if years = 1 then ''in 1 year'' else ''in '' @ str_int years @ '' years'')"

text \<open>
  \<open>now\<close> is the optional argument; \<open>clock\<close> is what \<open>datetime.now()\<close> returns when it is
  left out.
\<close>

definition human_time_diff :: "datetime \<Rightarrow> datetime \<Rightarrow> datetime option \<Rightarrow> string" where
  "human_time_diff clock past now_arg =
     (let now = (case now_arg of None \<Rightarrow> clock | Some n \<Rightarrow> n);
          delta = now - past;
          seconds = total_seconds_int delta
      in
      if seconds < 0 then human_time_diff_future (- seconds)
      else if seconds < 60 then ''for '' @ str_int seconds @ '' seconds''
      else let minutes = seconds div 60 in
      if minutes < 60 then (if minutes = 1 then ''for 1 minute'' else ''for '' @ str_int minutes @ '' minutes'')
      else let hours = minutes div 60 in
      if hours < 24 then (if hours = 1 then ''for 1 hour'' else ''for '' @ str_int hours @ '' hours'')
      else let days = hours div 24 in
      if days = 1 then ''since yesterday''
      else if days < 7 then ''for '' @ str_int days @ '' days''
      else let weeks = days div 7 in
      if weeks < 5 then (if weeks = 1 then ''for 1 week'' else ''for '' @ str_int weeks @ '' weeks'')
      else let months = days div 30 in
      if months < 12 then (if months = 1 then ''for 1 month'' else ''for '' @ str_int months @ '' months'')
      else let years = days div 365 in
      if years = 1 then ''for 1 year'' else ''for '' @ str_int years @ '' years'')"

text \<open>
  The bucket table as the specification words it, over whole elapsed seconds: \<open>pre\<close> is
  the phrase prefix and \<open>one_day\<close> the wording of the one-day bucket.
\<close>

definition spec_unit :: "string \<Rightarrow> int \<Rightarrow> string \<Rightarrow> string" where
  "spec_unit pre n u = (if n = 1 then pre @ ''1 '' @ u else pre @ str_int n @ '' '' @ u @ ''s'')"

definition spec_table :: "string \<Rightarrow> string \<Rightarrow> int \<Rightarrow> string" where
  "spec_table pre one_day s =
     (if s < 60 then pre @ str_int s @ '' seconds''
      else if s < 60 * 60 then spec_unit pre (s div 60) ''minute''
      else if s < 24 * 3600 then spec_unit pre (s div 3600) ''hour''
      else if s < 2 * 86400 then one_day
      else if s < 7 * 86400 then pre @ str_int (s div 86400) @ '' days''
      else if s < 5 * (7 * 86400) then spec_unit pre (s div (7 * 86400)) ''week''
      else if s < 12 * (30 * 86400) then spec_unit pre (s div (30 * 86400)) ''month''
      else spec_unit pre (s div (365 * 86400)) ''year'')"

section \<open>The entity model: Container\<close>

text \<open>
  What the interpreter supplies: the clock read by \<open>datetime.now()\<close> and the library
  function \<open>datetime.fromisoformat\<close>, None where it raises ValueError.
\<close>

record runtime =
  rt_now :: datetime
  rt_fromisoformat :: "string \<Rightarrow> datetime option"

text \<open>
  A raw container record of the \<open>containers\<close> listing. The fields the service may leave
  out are options (None: the key is absent); \<open>env\<close> keeps the order of the record, which
  the loops of \<open>_get_version\<close> follow.
\<close>

record raw_container =
  r_id :: string
  r_name :: string
  r_host_name :: string
  r_host_id :: string
  r_image :: string
  r_state :: string
  r_ports :: "string option"
  r_created :: "string option"
  r_started :: "string option"
  r_healthy :: "bool option"
  r_labels :: "(string \<rightharpoonup> string) option"
  r_env :: "(string \<times> string) list option"

text \<open>
  The Container object. \<open>c_host\<close> is the back-reference set by \<open>Host.add_container\<close>, held
  as the owning host's id; \<open>c_priv_update_status\<close> and \<open>c_priv_version\<close> are the attributes
  \<open>_update_status\<close> and \<open>_version\<close>.
\<close>

record Container =
  c_id :: string
  c_name :: string
  c_host_name :: string
  c_host_id :: string
  c_host :: "string option"
  c_image :: string
  c_state :: string
  c_ports :: string
  c_container_id :: string
  c_created :: datetime
  c_started :: datetime
  c_healthy :: "bool option"
  c_priv_update_status :: pydict
  c_priv_version :: "string option"

definition opt_to_pyval :: "string option \<Rightarrow> pyval" where
  "opt_to_pyval v = (case v of None \<Rightarrow> PNone | Some s \<Rightarrow> PStr s)"

text \<open>
  \<open>parse_ns_iso8601\<close>: AttributeError (a value with no \<open>rstrip\<close>) and ValueError (an
  unpacking of other than two parts, or \<open>fromisoformat\<close> refusing the text) are caught.
\<close>

definition parse_ns_iso8601 :: "runtime \<Rightarrow> pyval \<Rightarrow> datetime" where
  "parse_ns_iso8601 rt v =
     (case v of
        PStr s0 \<Rightarrow>
          (let s = rstrip_chr (CHR ''Z'') s0 in
           if CHR ''.'' \<in> set s then
             (case split_chr (CHR ''.'') s of
                [ts, frac] \<Rightarrow>
                  (case rt_fromisoformat rt (ts @ ''.'' @ take 6 frac) of
                     None \<Rightarrow> rt_now rt
                   | Some d \<Rightarrow> d)
              | _ \<Rightarrow> rt_now rt)
           else (case rt_fromisoformat rt s of None \<Rightarrow> rt_now rt | Some d \<Rightarrow> d))
      | _ \<Rightarrow> rt_now rt)"

text \<open>\<open>if version\<close> on a value that is None or a string.\<close>

definition truthy_str :: "string option \<Rightarrow> bool" where
  "truthy_str v = (case v of None \<Rightarrow> False | Some s \<Rightarrow> s \<noteq> [])"

text \<open>
  \<open>for env in container['env']: if p(env): version = container['env'][env]\<close>, over the
  items of the dict in their order (the keys of a dict are distinct, so the value looked
  up is the one listed with the key).
\<close>

fun env_loop :: "(string \<Rightarrow> bool) \<Rightarrow> (string \<times> string) list \<Rightarrow> string option \<Rightarrow> string option" where
  "env_loop p [] version = version"
| "env_loop p ((k, v) # es) version = env_loop p es (if p k then Some v else version)"

definition env_scan :: "raw_container \<Rightarrow> (string \<Rightarrow> bool) \<Rightarrow> string option \<Rightarrow> error + string option" where
  "env_scan container p version =
     (case r_env container of
        None \<Rightarrow> Inl KeyError
      | Some env \<Rightarrow> Inr (env_loop p env version))"

definition version_env_strings :: "string list" where
  "version_env_strings = [''PG_VERSION'', ''REDIS_VERSION'', ''INFLUXDB_VERSION'']"

definition get_version :: "raw_container \<Rightarrow> error + string option" where
  "get_version container =
     (case r_labels container of
        None \<Rightarrow> Inl AttributeError
      | Some labels \<Rightarrow>
          (let version = labels ''org.opencontainers.image.version'' in
           (case split_chr_once (CHR '':'') (r_image container) of
              [image_head, image_version] \<Rightarrow>
                (let image_name = last (split_chr (CHR ''/'') image_head) in
                 (case (if \<not> truthy_str version
                        then env_scan container (\<lambda>env. env \<in> set version_env_strings) version
                        else Inr version) of
                    Inl e \<Rightarrow> Inl e
                  | Inr version \<Rightarrow>
                 (case (if \<not> truthy_str version \<and> image_name = ''php''
                        then env_scan container (\<lambda>env. env = ''PHP_VERSION'') version
                        else Inr version) of
                    Inl e \<Rightarrow> Inl e
                  | Inr version \<Rightarrow>
                 (case (if \<not> truthy_str version \<and> image_name = ''nginx''
                        then env_scan container (\<lambda>env. env = ''NGINX_VERSION'') version
                        else Inr version) of
                    Inl e \<Rightarrow> Inl e
                  | Inr version \<Rightarrow>
                 (if \<not> truthy_str version \<and> image_name = ''python''
                  then env_scan container (\<lambda>env. env = ''PYTHON_VERSION'') version
                  else Inr version)))))
            | _ \<Rightarrow> Inl IndexError)))"

definition default_update_status :: pydict where
  "default_update_status = [''update_available'' \<mapsto> PBool False]"

text \<open>\<open>Container.__init__\<close>; line 231 of the source reads the key \<open>created\<close> for \<open>started\<close>.\<close>

definition Container_init :: "runtime \<Rightarrow> raw_container \<Rightarrow> error + Container" where
  "Container_init rt cont =
     (let created = parse_ns_iso8601 rt (opt_to_pyval (r_created cont));
          started = parse_ns_iso8601 rt (opt_to_pyval (r_created cont))
      in case get_version cont of
           Inl e \<Rightarrow> Inl e
         | Inr v \<Rightarrow>
             Inr \<lparr> c_id = r_id cont, c_name = r_name cont, c_host_name = r_host_name cont,
                   c_host_id = r_host_id cont, c_host = None, c_image = r_image cont,
                   c_state = r_state cont,
                   c_ports = (case r_ports cont of None \<Rightarrow> [] | Some p \<Rightarrow> p),
                   c_container_id = r_host_id cont @ '':'' @ r_id cont,
                   c_created = created, c_started = started, c_healthy = r_healthy cont,
                   c_priv_update_status = default_update_status, c_priv_version = v \<rparr>)"

definition version :: "Container \<Rightarrow> string" where
  "version c = (if truthy_str (c_priv_version c) then (case c_priv_version c of Some s \<Rightarrow> s | None \<Rightarrow> []) else ''N/A'')"

definition update_available :: "Container \<Rightarrow> error + pyval" where
  "update_available c = subscript (c_priv_update_status c) ''update_available''"

definition update_status :: "Container \<Rightarrow> pydict" where
  "update_status c = c_priv_update_status c"

text \<open>
  The setter of \<open>update_status\<close>. The dict handed in is the one stored and written to;
  \<open>human_time_diff\<close> is called without \<open>now\<close>, so it reads the clock.
\<close>

definition set_update_status :: "runtime \<Rightarrow> Container \<Rightarrow> pydict \<Rightarrow> error + Container" where
  "set_update_status rt c us =
     (case subscript us ''current_version'' of
        Inl e \<Rightarrow> Inl e
      | Inr cv \<Rightarrow>
          (let us1 = (if \<not> truthy cv \<and> truthy_str (c_priv_version c)
                      then us(''current_version'' \<mapsto> opt_to_pyval (c_priv_version c))
                      else us);
               us2 = (if truthy (dict_get us1 ''last_checked_at'')
                      then
                        (let t = parse_ns_iso8601 rt (dict_get us1 ''last_checked_at'');
                             us1a = us1(''last_checked_at'' \<mapsto> PDatetime t)
                         in us1a(''last_checked'' \<mapsto>
                              PStr (replace_str ''for '' [] (replace_str ''since'' []
                                      (human_time_diff (rt_now rt) t None)) @ '' ago'')))
                      else us1)
           in Inr (c\<lparr>c_priv_update_status := us2\<rparr>)))"

section \<open>The filter: \_container\_match\<close>

text \<open>A filter argument is None or a string; \<open>if name_match\<close> holds for a non-empty string.\<close>

definition arg_str :: "string option \<Rightarrow> string" where
  "arg_str a = (case a of None \<Rightarrow> [] | Some s \<Rightarrow> s)"

definition container_match :: "Container \<Rightarrow> string option \<Rightarrow> string option \<Rightarrow> bool" where
  "container_match container name_match image_match =
     (let partial_names = [''www'', ''php'', ''librenms''] in
      if \<not> truthy_str name_match \<and> \<not> truthy_str image_match then True
      else if truthy_str name_match \<and> truthy_str image_match then
        (if sublist (arg_str image_match) (c_image container) then
           (if arg_str name_match = c_name container then True
            else if arg_str name_match \<in> set partial_names
                    \<and> sublist (arg_str name_match) (c_name container) then True
            else False)
         else False)
      else if truthy_str name_match \<and> \<not> truthy_str image_match then
        (if arg_str name_match = c_name container then True
         else if arg_str name_match \<in> set partial_names
                 \<and> sublist (arg_str name_match) (c_name container) then True
         else False)
      else if truthy_str image_match \<and> \<not> truthy_str name_match then
        (if sublist (arg_str image_match) (c_image container) then True else False)
      else False)"

section \<open>The entity model: Host\<close>

record raw_host =
  rh_id :: string
  rh_name :: string

record Host =
  h_id :: string
  h_name :: string
  h_priv_containers :: "Container list"
  h_container_order :: string

definition Host_init :: "raw_host \<Rightarrow> Host" where
  "Host_init host =
     \<lparr> h_id = rh_id host, h_name = rh_name host, h_priv_containers = [],
       h_container_order = ''name'' \<rparr>"

definition add_container :: "Host \<Rightarrow> Container \<Rightarrow> Host" where
  "add_container h container =
     h\<lparr>h_priv_containers := h_priv_containers h @ [container\<lparr>c_host := Some (h_id h)\<rparr>]\<rparr>"

text \<open>
  The property \<open>containers\<close>: \<open>sorted\<close> is stable and calls the key on every element
  before it compares, so a key that raises ends the call. The keys \<open>name\<close>, \<open>image\<close> and
  \<open>state\<close> are strings. The key \<open>update_available\<close> is whatever the status dict holds:
  booleans order False before True, strings and datetimes among themselves; None, or
  keys of different kinds, raise TypeError at the first comparison, which a list of two
  or more elements always makes.
\<close>

fun first_error :: "(error + 'a) list \<Rightarrow> error option" where
  "first_error [] = None"
| "first_error (Inl e # rs) = Some e"
| "first_error (Inr v # rs) = first_error rs"

definition sort_update_available :: "Container list \<Rightarrow> error + Container list" where
  "sort_update_available cs =
     (case first_error (map update_available cs) of
        Some e \<Rightarrow> Inl e
      | None \<Rightarrow>
          (let k = (\<lambda>c. dict_get (c_priv_update_status c) ''update_available'') in
           if length cs \<le> 1 then Inr cs
           else if list_all (\<lambda>c. case k c of PBool b \<Rightarrow> True | _ \<Rightarrow> False) cs
             then Inr (sort_key (\<lambda>c. case k c of PBool b \<Rightarrow> b | _ \<Rightarrow> False) cs)
           else if list_all (\<lambda>c. case k c of PStr s \<Rightarrow> True | _ \<Rightarrow> False) cs
             then Inr (sort_key (\<lambda>c. case k c of PStr s \<Rightarrow> s | _ \<Rightarrow> []) cs)
           else if list_all (\<lambda>c. case k c of PDatetime t \<Rightarrow> True | _ \<Rightarrow> False) cs
             then Inr (sort_key (\<lambda>c. case k c of PDatetime t \<Rightarrow> t | _ \<Rightarrow> 0) cs)
           else Inl TypeError))"

definition containers :: "Host \<Rightarrow> error + Container list" where
  "containers h =
     (if h_container_order h = ''image'' then Inr (sort_key c_image (h_priv_containers h))
      else if h_container_order h = ''state'' then Inr (sort_key c_state (h_priv_containers h))
      else if h_container_order h = ''update_available''
        then sort_update_available (h_priv_containers h)
      else Inr (sort_key c_name (h_priv_containers h)))"

section \<open>The remote client and get\_container\_status\<close>

text \<open>
  The parsed command line, and the remote service as the client sees it: what each
  endpoint answers, \<open>Inl\<close> where \<open>raise_for_status\<close> raises. A POST answers its decoded
  result \<open>{status, message}\<close>, or fails with HTTPError carrying the body \<open>{detail}\<close>.
\<close>

record args =
  a_host :: "string option"
  a_container :: "string option"
  a_image :: "string option"
  a_updates_only :: bool
  a_order :: string
  a_json :: bool

datatype response = Result string string | ErrorBody string

record client =
  cl_hosts :: "error + raw_host list"
  cl_updates_summary :: "error + string list option"
  cl_containers :: "error + raw_container list"
  cl_update_status :: "string \<Rightarrow> string \<Rightarrow> error + pydict"
  cl_execute_update :: "string \<Rightarrow> string \<Rightarrow> response"
  cl_restart :: "string \<Rightarrow> string \<Rightarrow> response"

datatype request =
    GetHosts
  | GetUpdatesSummary
  | GetContainers
  | GetUpdateStatus string string
  | PostExecuteUpdate string string
  | PostRestart string string

text \<open>The dict \<open>hosts\<close>, in insertion order; assigning to a key that is there keeps its place.\<close>

type_synonym hosts = "(string \<times> Host) list"

fun dict_set :: "string \<Rightarrow> Host \<Rightarrow> hosts \<Rightarrow> hosts" where
  "dict_set k v [] = [(k, v)]"
| "dict_set k v ((k', v') # d) = (if k' = k then (k, v) # d else (k', v') # dict_set k v d)"

fun hosts_loop :: "args \<Rightarrow> raw_host list \<Rightarrow> hosts \<Rightarrow> hosts" where
  "hosts_loop a [] hosts = hosts"
| "hosts_loop a (host # data) hosts =
     hosts_loop a data
       (if \<not> truthy_str (a_host a) \<or> Some (rh_name host) = a_host a
        then dict_set (rh_id host) ((Host_init host)\<lparr>h_container_order := a_order a\<rparr>) hosts
        else hosts)"

text \<open>
  The body of the loop over the containers listing, from the membership test on the
  summary to the assignment of the fetched status: the requests it sends and the
  container it leaves.
\<close>

definition fetch_update_status ::
  "runtime \<Rightarrow> client \<Rightarrow> string list \<Rightarrow> Container \<Rightarrow> request list \<times> (error + Container)" where
  "fetch_update_status rt cl containers_with_updates container =
     (if c_container_id container \<in> set containers_with_updates then
        (case cl_update_status cl (c_host_id container) (c_id container) of
           Inl e \<Rightarrow> ([GetUpdateStatus (c_host_id container) (c_id container)], Inl e)
         | Inr us \<Rightarrow>
             ([GetUpdateStatus (c_host_id container) (c_id container)],
              set_update_status rt container us))
      else ([], Inr container))"

fun containers_loop ::
  "runtime \<Rightarrow> client \<Rightarrow> args \<Rightarrow> string list \<Rightarrow> raw_container list \<Rightarrow> hosts
     \<Rightarrow> request list \<times> (error + hosts)" where
  "containers_loop rt cl a ups [] hosts = ([], Inr hosts)"
| "containers_loop rt cl a ups (c # data) hosts =
     (case Container_init rt c of
        Inl e \<Rightarrow> ([], Inl e)
      | Inr container \<Rightarrow>
          (case map_of hosts (c_host_id container) of
             None \<Rightarrow> containers_loop rt cl a ups data hosts
           | Some h \<Rightarrow>
               if container_match container (a_container a) (a_image a) then
                 (case fetch_update_status rt cl ups container of
                    (reqs, Inl e) \<Rightarrow> (reqs, Inl e)
                  | (reqs, Inr container') \<Rightarrow>
                      (case (if a_updates_only a then update_available container'
                             else Inr (PBool True)) of
                         Inl e \<Rightarrow> (reqs, Inl e)
                       | Inr ua \<Rightarrow>
                           (let (reqs', r) =
                              (if a_updates_only a \<and> \<not> truthy ua
                               then containers_loop rt cl a ups data hosts
                               else containers_loop rt cl a ups data
                                      (dict_set (c_host_id container')
                                         (add_container h container') hosts))
                            in (reqs @ reqs', r))))
               else containers_loop rt cl a ups data hosts))"

definition get_container_status ::
  "runtime \<Rightarrow> client \<Rightarrow> args \<Rightarrow> request list \<times> (error + hosts)" where
  "get_container_status rt cl a =
     (case cl_hosts cl of
        Inl e \<Rightarrow> ([GetHosts], Inl e)
      | Inr host_data \<Rightarrow>
          (let hosts = hosts_loop a host_data [] in
           case cl_updates_summary cl of
             Inl e \<Rightarrow> ([GetHosts, GetUpdatesSummary], Inl e)
           | Inr updates \<Rightarrow>
               (case cl_containers cl of
                  Inl e \<Rightarrow> ([GetHosts, GetUpdatesSummary, GetContainers], Inl e)
                | Inr data \<Rightarrow>
                    (let (reqs, r) =
                       containers_loop rt cl a
                         (case updates of None \<Rightarrow> [] | Some ids \<Rightarrow> ids) data hosts
                     in ([GetHosts, GetUpdatesSummary, GetContainers] @ reqs, r)))))"

section \<open>The mutating actions and their dispatch in main\<close>

definition glyph_ok :: string where
  "glyph_ok = [CHR 0xE2, CHR 0x9C, CHR 0x85]"

definition glyph_error :: string where
  "glyph_error = [CHR 0xE2, CHR 0x9D, CHR 0x8C]"

definition glyph_up :: string where
  "glyph_up = [CHR 0xE2, CHR 0xAC, CHR 0x86, CHR 0xEF, CHR 0xB8, CHR 0x8F]"

definition glyph_recycle :: string where
  "glyph_recycle = [CHR 0xE2, CHR 0x99, CHR 0xBB, CHR 0xEF, CHR 0xB8, CHR 0x8F]"

text \<open>
  What the process does, in order: the requests it sends, the lines it prints, the
  \<open>json.dumps\<close> of a result it prints, \<open>sys.exit()\<close>, an exception that ends it.
  \<open>PrintErrorBody\<close> is the line of \<open>execute_restart\<close> that holds the error glyph, a space
  and the \<open>repr\<close> of the decoded error body.
\<close>

datatype event =
    Request request
  | Print string
  | PrintErrorBody response
  | PrintJson response
  | Exit
  | Raised error

definition execute_update :: "client \<Rightarrow> string \<Rightarrow> string \<Rightarrow> bool \<Rightarrow> event list \<times> response" where
  "execute_update cl host_id container_id quiet =
     (case cl_execute_update cl host_id container_id of
        ErrorBody detail \<Rightarrow>
          (Request (PostExecuteUpdate host_id container_id) #
             (if detail = ''No update available for this container''
              then (if \<not> quiet then [Print (glyph_ok @ '' '' @ detail)] else [])
              else (if \<not> quiet then [Print (glyph_error @ '' HTTP exception: '' @ detail)] else [])),
           ErrorBody detail)
      | Result status message \<Rightarrow>
          (Request (PostExecuteUpdate host_id container_id) #
             (if status = ''success''
              then (if \<not> quiet then [Print (glyph_ok @ '' '' @ message)] else [])
              else (if \<not> quiet then [Print (glyph_error @ '' '' @ message)] else [])),
           Result status message))"

definition execute_restart :: "client \<Rightarrow> string \<Rightarrow> string \<Rightarrow> bool \<Rightarrow> event list \<times> response" where
  "execute_restart cl host_id container_id quiet =
     (case cl_restart cl host_id container_id of
        ErrorBody detail \<Rightarrow>
          (Request (PostRestart host_id container_id) #
             (if \<not> quiet then [PrintErrorBody (ErrorBody detail)] else []),
           ErrorBody detail)
      | Result status message \<Rightarrow>
          (Request (PostRestart host_id container_id) #
             (if status = ''success''
              then (if \<not> quiet then [Print (glyph_ok @ '' '' @ message)] else [])
              else (if \<not> quiet then [Print (glyph_error @ '' '' @ message)] else [])),
           Result status message))"

text \<open>
  The branches \<open>elif args.update\<close> and \<open>elif args.restart\<close> of \<open>main\<close>, after
  \<open>get_container_status\<close> has returned \<open>hosts\<close>. The inner loop returns whether the
  process has exited.
\<close>

fun update_containers :: "args \<Rightarrow> client \<Rightarrow> Host \<Rightarrow> Container list \<Rightarrow> event list \<times> bool" where
  "update_containers a cl host [] = ([], False)"
| "update_containers a cl host (container # cs) =
     (let announce =
            (if \<not> a_json a
             then [Print (glyph_up @ ''  Executing update for container '' @ c_name container
                          @ '' on '' @ h_name host)]
             else []);
          (evs, result) = execute_update cl (h_id host) (c_id container) (a_json a)
      in if a_json a then (announce @ evs @ [PrintJson result, Exit], True)
         else (let (rest, exited) = update_containers a cl host cs
               in (announce @ evs @ rest, exited)))"

fun update_hosts :: "args \<Rightarrow> client \<Rightarrow> Host list \<Rightarrow> event list" where
  "update_hosts a cl [] = []"
| "update_hosts a cl (host # hs) =
     (case containers host of
        Inl e \<Rightarrow> [Raised e]
      | Inr cs \<Rightarrow>
          (let (evs, exited) = update_containers a cl host cs
           in if exited then evs else evs @ update_hosts a cl hs))"

definition main_update :: "args \<Rightarrow> client \<Rightarrow> hosts \<Rightarrow> event list" where
  "main_update a cl hosts = update_hosts a cl (map snd hosts)"

fun restart_containers :: "args \<Rightarrow> client \<Rightarrow> Host \<Rightarrow> Container list \<Rightarrow> event list \<times> bool" where
  "restart_containers a cl host [] = ([], False)"
| "restart_containers a cl host (container # cs) =
     (let announce =
            (if \<not> a_json a
             then [Print (glyph_recycle @ ''  Restarting container '' @ c_name container
                          @ '' on '' @ h_name host)]
             else []);
          (evs, result) = execute_restart cl (h_id host) (c_id container) (a_json a)
      in if a_json a then (announce @ evs @ [PrintJson result, Exit], True)
         else (let (rest, exited) = restart_containers a cl host cs
               in (announce @ evs @ rest, exited)))"

fun restart_hosts :: "args \<Rightarrow> client \<Rightarrow> Host list \<Rightarrow> event list" where
  "restart_hosts a cl [] = []"
| "restart_hosts a cl (host # hs) =
     (case containers host of
        Inl e \<Rightarrow> [Raised e]
      | Inr cs \<Rightarrow>
          (let (evs, exited) = restart_containers a cl host cs
           in if exited then evs else evs @ restart_hosts a cl hs))"

definition main_restart :: "args \<Rightarrow> client \<Rightarrow> hosts \<Rightarrow> event list" where
  "main_restart a cl hosts = restart_hosts a cl (map snd hosts)"

section \<open>The specification's notions, for stating the properties\<close>

subsection \<open>Filter rules\<close>

definition name_rule :: "string \<Rightarrow> Container \<Rightarrow> bool" where
  "name_rule name_filter c =
     (name_filter = c_name c
      \<or> (name_filter \<in> {''www'', ''php'', ''librenms''} \<and> sublist name_filter (c_name c)))"

definition image_rule :: "string \<Rightarrow> Container \<Rightarrow> bool" where
  "image_rule image_filter c = sublist image_filter (c_image c)"

subsection \<open>The version resolution chain\<close>






definition nonempty :: "string option \<Rightarrow> string option" where
  "nonempty v = (if truthy_str v then v else None)"



subsection \<open>The working set and the detail fetches\<close>

definition host_selected :: "args \<Rightarrow> raw_host \<Rightarrow> bool" where
  "host_selected a host = (\<not> truthy_str (a_host a) \<or> Some (rh_name host) = a_host a)"

definition selected_host_ids :: "args \<Rightarrow> raw_host list \<Rightarrow> string set" where
  "selected_host_ids a host_data = rh_id ` {h \<in> set host_data. host_selected a h}"

definition constructed :: "runtime \<Rightarrow> raw_container \<Rightarrow> Container list" where
  "constructed rt r = (case Container_init rt r of Inl e \<Rightarrow> [] | Inr c \<Rightarrow> [c])"

definition in_working_set :: "args \<Rightarrow> string set \<Rightarrow> Container \<Rightarrow> bool" where
  "in_working_set a host_ids c =
     (c_host_id c \<in> host_ids \<and> container_match c (a_container a) (a_image a))"

text \<open>
  The already-filtered working set: the containers of the listing, in its order, that
  sit on a selected host and pass the name and image filters.
\<close>

definition working_set ::
  "runtime \<Rightarrow> args \<Rightarrow> string set \<Rightarrow> raw_container list \<Rightarrow> Container list" where
  "working_set rt a host_ids data =
     filter (in_working_set a host_ids) (concat (map (constructed rt) data))"

definition summary_ids :: "string list option \<Rightarrow> string list" where
  "summary_ids updates = (case updates of None \<Rightarrow> [] | Some ids \<Rightarrow> ids)"

text \<open>Flagged in the summary: the composite id, host id and id joined by a colon, is listed.\<close>

definition flagged :: "string list \<Rightarrow> Container \<Rightarrow> bool" where
  "flagged ups c = (c_host_id c @ '':'' @ c_id c \<in> set ups)"

definition fetch_request :: "Container \<Rightarrow> request" where
  "fetch_request c = GetUpdateStatus (c_host_id c) (c_id c)"

definition keeps_default :: "string list \<Rightarrow> hosts \<Rightarrow> bool" where
  "keeps_default ups hosts =
     (\<forall>(k, h) \<in> set hosts. \<forall>c \<in> set (h_priv_containers h).
        \<not> flagged ups c \<longrightarrow> update_status c = [''update_available'' \<mapsto> PBool False])"

subsection \<open>The two steps of a merge\<close>

text \<open>
  What the setter of \<open>update_status\<close> does to the dict once it has read
  \<open>current_version\<close>: the backfill from the container's \<open>_version\<close>, then the rewrite of
  \<open>last_checked_at\<close> and \<open>last_checked\<close>.
\<close>

definition backfill_version :: "string option \<Rightarrow> pyval \<Rightarrow> pydict \<Rightarrow> pydict" where
  "backfill_version v cv us =
     (if \<not> truthy cv \<and> truthy_str v then us(''current_version'' \<mapsto> opt_to_pyval v) else us)"

definition stamp_last_checked :: "runtime \<Rightarrow> pydict \<Rightarrow> pydict" where
  "stamp_last_checked rt us =
     (if truthy (dict_get us ''last_checked_at'')
      then
        (let t = parse_ns_iso8601 rt (dict_get us ''last_checked_at'')
         in us(''last_checked_at'' \<mapsto> PDatetime t,
               ''last_checked'' \<mapsto>
                 PStr (replace_str ''for '' [] (replace_str ''since'' []
                        (human_time_diff (rt_now rt) t None)) @ '' ago'')))
      else us)"

subsection \<open>Assigning one dict object twice\<close>


subsection \<open>Reading a run of the dispatcher\<close>

fun requests_of :: "event list \<Rightarrow> request list" where
  "requests_of [] = []"
| "requests_of (Request r # evs) = r # requests_of evs"
| "requests_of (ev # evs) = requests_of evs"

fun results_of :: "event list \<Rightarrow> response list" where
  "results_of [] = []"
| "results_of (PrintJson r # evs) = r # results_of evs"
| "results_of (ev # evs) = results_of evs"

text \<open>The matched containers, host by host, each host's in the order it enumerates them.\<close>

definition matched :: "Host list \<Rightarrow> (Host \<times> Container) list" where
  "matched hs =
     concat (map (\<lambda>h. case containers h of Inl e \<Rightarrow> [] | Inr cs \<Rightarrow> map (Pair h) cs) hs)"

text \<open>
  The line that classifies the outcome of an execute-update request: the check mark
  (U+2705) or the cross (U+274C) in UTF-8, then the text.
\<close>

definition rendered_line :: "response \<Rightarrow> string" where
  "rendered_line r =
     (case r of
        ErrorBody detail \<Rightarrow>
          (if detail = ''No update available for this container''
           then [CHR 0xE2, CHR 0x9C, CHR 0x85] @ '' '' @ detail
           else [CHR 0xE2, CHR 0x9D, CHR 0x8C] @ '' HTTP exception: '' @ detail)
      | Result status message \<Rightarrow>
          (if status = ''success'' then [CHR 0xE2, CHR 0x9C, CHR 0x85] @ '' '' @ message
           else [CHR 0xE2, CHR 0x9D, CHR 0x8C] @ '' '' @ message))"

section \<open>Sample inputs\<close>

text \<open>
  A clock at 2024-07-01 00:00:00 and a \<open>fromisoformat\<close> that knows three texts; a host
  \<open>alpha\<close> with an nginx container \<open>web\<close> (flagged in the summary) and a postgres
  container \<open>db\<close> whose \<open>created\<close> does not parse.
\<close>

definition rt0 :: runtime where
  "rt0 = \<lparr> rt_now = 1719792000000000,
           rt_fromisoformat =
             (\<lambda>s. if s = ''2024-01-01T00:00:00'' then Some 1704067200000000
                  else if s = ''2024-06-01T12:00:00'' then Some 1717243200000000
                  else if s = ''2024-06-01T12:00:00.123456'' then Some 1717243200123456
                  else None) \<rparr>"

definition raw_web :: raw_container where
  "raw_web = \<lparr> r_id = ''c1'', r_name = ''web'', r_host_name = ''alpha'', r_host_id = ''h1'',
               r_image = ''library/nginx:1.25'', r_state = ''running'', r_ports = None,
               r_created = Some ''2024-01-01T00:00:00Z'',
               r_started = Some ''2024-06-01T12:00:00Z'',
               r_healthy = None, r_labels = Some Map.empty,
               r_env = Some [(''PATH'', ''/usr/bin''), (''NGINX_VERSION'', ''1.25.3'')] \<rparr>"

definition raw_db :: raw_container where
  "raw_db = \<lparr> r_id = ''c2'', r_name = ''db'', r_host_name = ''alpha'', r_host_id = ''h1'',
              r_image = ''postgres:16'', r_state = ''running'', r_ports = None,
              r_created = Some ''not a timestamp'', r_started = None,
              r_healthy = None, r_labels = Some Map.empty,
              r_env = Some [(''PG_VERSION'', ''16.2'')] \<rparr>"



definition raw_nolabels :: raw_container where
  "raw_nolabels = raw_web \<lparr> r_id := ''c5'', r_labels := None \<rparr>"

definition raw_notag :: raw_container where
  "raw_notag = raw_web \<lparr> r_id := ''c6'', r_image := ''library/nginx'' \<rparr>"

definition status_web :: pydict where
  "status_web = [''update_available'' \<mapsto> PBool True, ''current_version'' \<mapsto> PNone,
                 ''latest_version'' \<mapsto> PStr ''1.25.4'',
                 ''last_checked_at'' \<mapsto> PStr ''2024-06-01T12:00:00.123456789Z'']"


definition host_alpha :: raw_host where
  "host_alpha = \<lparr> rh_id = ''h1'', rh_name = ''alpha'' \<rparr>"

definition args0 :: args where
  "args0 = \<lparr> a_host = None, a_container = None, a_image = None, a_updates_only = False,
             a_order = ''name'', a_json = False \<rparr>"

definition cl0 :: client where
  "cl0 = \<lparr> cl_hosts = Inr [host_alpha],
           cl_updates_summary = Inr (Some [''h1:c1'']),
           cl_containers = Inr [raw_web, raw_db],
           cl_update_status = (\<lambda>host_id container_id. Inr status_web),
           cl_execute_update =
             (\<lambda>host_id container_id. ErrorBody ''No update available for this container''),
           cl_restart = (\<lambda>host_id container_id. Result ''success'' ''Container restarted'') \<rparr>"

text \<open>The same service with a containers listing whose second record has an image without a tag.\<close>

definition cl_notag :: client where
  "cl_notag = cl0 \<lparr> cl_containers := Inr [raw_web, raw_notag] \<rparr>"

text \<open>A container object with the given id, name and image, as the filter and the dispatcher read it.\<close>

definition sample_container :: "string \<Rightarrow> string \<Rightarrow> string \<Rightarrow> Container" where
  "sample_container ident name img =
     \<lparr> c_id = ident, c_name = name, c_host_name = ''alpha'', c_host_id = ''h1'',
       c_host = Some ''h1'', c_image = img, c_state = ''running'', c_ports = [],
       c_container_id = ''h1:'' @ ident, c_created = 0, c_started = 0, c_healthy = None,
       c_priv_update_status = default_update_status, c_priv_version = None \<rparr>"

definition sample_host :: "string \<Rightarrow> string \<Rightarrow> Container list \<Rightarrow> Host" where
  "sample_host ident name cs =
     \<lparr> h_id = ident, h_name = name, h_priv_containers = cs, h_container_order = ''name'' \<rparr>"

text \<open>
  The command line with \<open>--json\<close>; two hosts holding three matched containers, and a
  host holding none.
\<close>

definition args_json :: args where
  "args_json = args0 \<lparr> a_json := True \<rparr>"

definition hosts_two :: hosts where
  "hosts_two =
     [(''h1'', sample_host ''h1'' ''alpha''
                 [sample_container ''c1'' ''web'' ''nginx:1.25'',
                  sample_container ''c2'' ''db'' ''postgres:16'']),
      (''h2'', sample_host ''h2'' ''beta'' [sample_container ''c3'' ''cache'' ''redis:7''])]"

definition hosts_empty :: hosts where
  "hosts_empty = [(''h1'', sample_host ''h1'' ''alpha'' [])]"


section \<open>Properties of the time formatter\<close>

lemma div_lower: "a * k \<le> s \<Longrightarrow> 0 < k \<Longrightarrow> a \<le> s div k" for s :: int
  using zdiv_mono1[of "a * k" s k] by simp

lemma div_upper:
  fixes s :: int
  assumes "s < b * k" "0 < k"
  shows "s div k < b"
proof (rule ccontr)
  assume "\<not> s div k < b"
  then have "b \<le> s div k" by simp
  then have "b * k \<le> s div k * k" using assms(2) by (simp add: mult_right_mono)
  moreover have "s div k * k + s mod k = s" by simp
  moreover have "0 \<le> s mod k" using assms(2) by simp
  ultimately show False using assms(1) by linarith
qed

lemma div_less_iff_int:
  fixes s :: int
  assumes "0 < k"
  shows "(s div k < b) = (s < b * k)"
proof
  assume l: "s div k < b"
  show "s < b * k"
  proof (rule ccontr)
    assume "\<not> s < b * k"
    then have "b * k \<le> s" by simp
    then have "b \<le> s div k" using assms by (rule div_lower)
    with l show False by simp
  qed
next
  assume "s < b * k"
  then show "s div k < b" using assms by (rule div_upper)
qed

lemma div_chain:
  "s div 60 div 60 = s div 3600" "s div 3600 div 24 = s div 86400"
  "s div 86400 div 7 = s div 604800" "s div 86400 div 30 = s div 2592000"
  "s div 86400 div 365 = s div 31536000" for s :: int
  by (simp_all add: zdiv_zmult2_eq[symmetric])

lemma bucket_thresholds:
  "(s div 60 < 60) = (s < 3600)" "(s div 3600 < 24) = (s < 86400)"
  "(s div 86400 < 7) = (s < 604800)" "(s div 604800 < 5) = (s < 3024000)"
  "(s div 2592000 < 12) = (s < 31104000)"
  "(s div 86400 < 1) = (s < 86400)" "(s div 86400 < 2) = (s < 172800)" for s :: int
  by (simp_all add: div_less_iff_int)

lemma one_day_bucket: "(s div 86400 = 1) = (86400 \<le> s \<and> s < 172800)" for s :: int
proof -
  have "(s div 86400 = 1) = (\<not> s div 86400 < 1 \<and> s div 86400 < 2)" by auto
  then show ?thesis by (simp add: bucket_thresholds not_less)
qed

lemma ilog2_less: "n < 2 ^ k \<Longrightarrow> 0 < k \<Longrightarrow> ilog2 n < k"
proof (induction n arbitrary: k rule: ilog2.induct)
  case (1 n)
  show ?case
  proof (cases "n < 2")
    case True
    then show ?thesis using 1(3) by (simp add: ilog2.simps)
  next
    case False
    obtain j where j: "k = Suc j" using 1(3) by (cases k) auto
    have "n < 2 * 2 ^ j" using 1(2) j by simp
    then have h: "n div 2 < 2 ^ j" by linarith
    have "0 < j" using False 1(2) j by (cases j) auto
    with h have "ilog2 (n div 2) < j" using 1(1) False by simp
    then show ?thesis using False j by (simp add: ilog2.simps)
  qed
qed

lemma round_stays_below:
  fixes f P x :: int
  assumes f0: "0 \<le> f" and f: "f < 1000000" and P: "P = 2 ^ sh" and sh: "19 \<le> sh"
  shows "(if 1000000 < 2 * ((f * P) mod 1000000)
             \<or> (2 * ((f * P) mod 1000000) = 1000000 \<and> odd (x + (f * P) div 1000000))
          then (f * P) div 1000000 + 1 else (f * P) div 1000000) < P"
proof (cases "20 \<le> sh")
  case True
  have "(2::int) ^ 20 \<le> 2 ^ sh" using True by (intro power_increasing) auto
  then have big: "1048576 \<le> P" using P by simp
  have "f * P \<le> 999999 * P" using f big by (intro mult_right_mono) simp_all
  also have "\<dots> < (P - 1) * 1000000" using big by simp
  finally have "(f * P) div 1000000 < P - 1" by (intro div_upper) simp_all
  then show ?thesis by auto
next
  case False
  then have "sh = 19" using sh by simp
  then have PP: "P = 524288" using P by simp
  show ?thesis
  proof (cases "f = 999999")
    case True
    then show ?thesis by (simp add: PP)
  next
    case False
    then have "f \<le> 999998" using f by simp
    then have "f * P \<le> 999998 * P" by (intro mult_right_mono) (simp_all add: PP)
    also have "\<dots> < 524287 * 1000000" by (simp add: PP)
    finally have "(f * P) div 1000000 < 524287" by (intro div_upper) simp_all
    then show ?thesis by (auto simp: PP)
  qed
qed

lemma float_seconds_exact:
  assumes "0 \<le> d" "d < 17179869184000000"
  shows "float_seconds d = d div 1000000"
proof (cases "d div 1000000 = 0")
  case True
  then show ?thesis by (simp add: float_seconds_def)
next
  case False
  define q where "q = d div 1000000"
  define f where "f = d mod 1000000"
  have d: "d = q * 1000000 + f" by (simp add: q_def f_def)
  have f0: "0 \<le> f" and f: "f < 1000000" by (simp_all add: f_def)
  have "q < 17179869184" unfolding q_def using assms(2) by (intro div_upper) simp_all
  then have "q < 2 ^ 34" by simp
  then have e: "ilog2 q < 34" by (rule ilog2_less) simp
  define sh where "sh = 52 - ilog2 q"
  define P :: int where "P = 2 ^ sh"
  have sh: "19 \<le> sh" using e by (simp add: sh_def)
  have n: "d * P = (q * P) * 1000000 + f * P" by (simp add: d algebra_simps)
  have m: "(d * P) div 1000000 = q * P + (f * P) div 1000000"
    unfolding n by simp
  have r: "(d * P) mod 1000000 = (f * P) mod 1000000"
    unfolding n by simp
  define g where "g = (if 1000000 < 2 * ((f * P) mod 1000000)
                           \<or> (2 * ((f * P) mod 1000000) = 1000000 \<and> odd (q * P + (f * P) div 1000000))
                        then (f * P) div 1000000 + 1 else (f * P) div 1000000)"
  have g: "g < P" unfolding g_def using round_stays_below[OF f0 f P_def sh] .
  have Ppos: "0 < P" by (simp add: P_def)
  have fP: "0 \<le> f * P" using f0 Ppos by simp
  then have "0 \<le> (f * P) div 1000000" by (simp add: pos_imp_zdiv_nonneg_iff)
  then have g0: "0 \<le> g" by (simp add: g_def)
  have le: "ilog2 q \<le> 52" using e by simp
  have "float_seconds d = (if 1000000 < 2 * ((d * P) mod 1000000)
                           \<or> (2 * ((d * P) mod 1000000) = 1000000 \<and> odd ((d * P) div 1000000))
                        then (d * P) div 1000000 + 1 else (d * P) div 1000000) div P"
    using False le
    by (simp add: float_seconds_def q_def[symmetric] Let_def sh_def[symmetric] P_def[symmetric])
  also have "\<dots> = (q * P + g) div P"
    unfolding m r g_def by (simp add: add.assoc)
  also have "\<dots> = q" using g g0 Ppos by (simp add: div_pos_pos_trivial)
  finally show ?thesis by (simp add: q_def)
qed

lemma total_seconds_int_bounds:
  assumes "0 \<le> d" "d < 17179869184000000"
  shows "total_seconds_int d * 1000000 \<le> d \<and> d < (total_seconds_int d + 1) * 1000000"
proof -
  have t: "total_seconds_int d = d div 1000000"
    using assms by (simp add: total_seconds_int_def float_seconds_exact)
  have "d div 1000000 * 1000000 + d mod 1000000 = d" by simp
  moreover have "0 \<le> d mod 1000000" "d mod 1000000 < 1000000" by simp_all
  moreover have "(d div 1000000 + 1) * 1000000 = d div 1000000 * 1000000 + 1000000"
    by (simp add: algebra_simps)
  ultimately show ?thesis unfolding t by linarith
qed

lemma float_seconds_zero: "float_seconds 0 = 0"
  by (simp add: float_seconds_def)

lemma total_seconds_int_neg: "total_seconds_int (- d) = - total_seconds_int d"
  by (cases "d = 0") (auto simp: total_seconds_int_def float_seconds_zero)

lemma total_seconds_int_small:
  "0 \<le> d \<Longrightarrow> d < 17179869184000000 \<Longrightarrow> total_seconds_int d = d div 1000000"
  by (simp add: total_seconds_int_def float_seconds_exact)

lemma ilog2_far: "ilog2 17187119999 = 34"
  by (simp add: ilog2.simps)

lemma total_seconds_int_far: "total_seconds_int 17187119999999999 = 17187120000"
  by (simp add: total_seconds_int_def float_seconds_def ilog2_far)

lemma human_time_diff_future_table:
  "human_time_diff_future n = spec_table ''in '' ''tomorrow'' n"
  by (simp add: human_time_diff_future_def spec_table_def spec_unit_def Let_def div_chain
        bucket_thresholds one_day_bucket)

lemma human_time_diff_past_table:
  "human_time_diff clock past (Some now) =
     (let s = total_seconds_int (now - past) in
      if s < 0 then human_time_diff_future (- s)
      else spec_table ''for '' ''since yesterday'' s)"
  by (simp add: human_time_diff_def spec_table_def spec_unit_def Let_def div_chain
        bucket_thresholds one_day_bucket)

lemma human_time_diff_default_now:
  "human_time_diff clock past None = human_time_diff clock past (Some clock)"
  by (simp add: human_time_diff_def)

lemma str_int_small:
  "str_int 0 = ''0''" "str_int 3 = ''3''" "str_int 4 = ''4''" "str_int 45 = ''45''"
  "str_int 545 = ''545''"
  by (simp_all add: str_int_def str_nat.simps digit_char_def)

text \<open>
  C4, as claimed: every pair of instants with a negative elapsed time (\<open>past\<close> later than
  \<open>now\<close>) is worded by the future formatter, ``in N unit''. The code decides on
  \<open>int(delta.total_seconds())\<close>, which is 0 for an elapsed time between minus one second
  and zero, so a \<open>past\<close> half a second after \<open>now\<close> is worded ``for 0 seconds''.
\<close>

theorem human_time_diff_subsecond_counterexample:
  "(0::int) - 500000 < 0 \<and> human_time_diff 0 500000 (Some 0) = ''for 0 seconds''"
  by (simp add: human_time_diff_def total_seconds_int_def float_seconds_def str_int_small)

text \<open>
  C4, amended: with \<open>s = int((now - past).total_seconds())\<close>, a negative \<open>s\<close> is worded by
  the future formatter on \<open>- s\<close>, and every other \<open>s\<close> (a negative elapsed time of less
  than a second among them) by the table with ``for'' and ``since yesterday''; the future
  formatter words its argument by the same table with ``in'' and ``tomorrow''. The table
  has the buckets of the specification: under 60 s seconds, under 60 min minutes, under
  24 h hours, one day, under 7 days days, under 5 weeks weeks (divisor 7 days), under 12
  months months (divisor 30 days), else years (divisor 365 days), singular at 1. Without
  \<open>now\<close> the clock is read. The whole seconds \<open>s\<close> are odd in the elapsed time \<open>d\<close>, and
  for \<open>d\<close> from zero up to \<open>2^34\<close> seconds (some 544 years) they are \<open>d\<close> rounded down:
  \<open>s * 10^6 \<le> d < (s + 1) * 10^6\<close>. So below that bound the elapsed time is rounded
  towards zero. From the bound on the double no longer holds every microsecond, and
  \<open>s\<close> can be the next whole second.
\<close>

theorem human_time_diff_table:
  "human_time_diff clock past (Some now) =
     (let s = total_seconds_int (now - past) in
      if s < 0 then human_time_diff_future (- s)
      else spec_table ''for '' ''since yesterday'' s)
   \<and> human_time_diff_future n = spec_table ''in '' ''tomorrow'' n
   \<and> human_time_diff clock past None = human_time_diff clock past (Some clock)
   \<and> total_seconds_int (- d) = - total_seconds_int d
   \<and> (0 \<le> d \<and> d < 17179869184000000 \<longrightarrow>
        total_seconds_int d * 1000000 \<le> d \<and> d < (total_seconds_int d + 1) * 1000000)"
  using human_time_diff_past_table human_time_diff_future_table human_time_diff_default_now
    total_seconds_int_neg total_seconds_int_bounds
  by blast

theorem human_time_diff_table_witness:
  "human_time_diff 0 0 (Some 45000000) = ''for 45 seconds''
   \<and> human_time_diff 0 0 (Some 45999999) = ''for 45 seconds''
   \<and> human_time_diff 0 0 (Some 90000000) = ''for 1 minute''
   \<and> human_time_diff 0 0 (Some (25 * 3600 * 1000000)) = ''since yesterday''
   \<and> human_time_diff 0 (3 * 86400 * 1000000) (Some 0) = ''in 3 days''
   \<and> human_time_diff 0 (3 * 86400 * 1000000 + 999999) (Some 0) = ''in 3 days''
   \<and> human_time_diff 0 0 (Some 17187119999999999) = ''for 545 years''
   \<and> (0::int) \<le> 45999999 \<and> (45999999::int) < 17179869184000000
   \<and> total_seconds_int 45999999 * 1000000 \<le> 45999999
   \<and> 45999999 < (total_seconds_int 45999999 + 1) * 1000000"
proof -
  have "human_time_diff 0 0 (Some 45000000) = ''for 45 seconds''"
    using human_time_diff_table[of 0 0 45000000]
    by (simp add: total_seconds_int_small spec_table_def str_int_small)
  moreover have "human_time_diff 0 0 (Some 45999999) = ''for 45 seconds''"
    using human_time_diff_table[of 0 0 45999999]
    by (simp add: total_seconds_int_small spec_table_def str_int_small)
  moreover have "human_time_diff 0 0 (Some 90000000) = ''for 1 minute''"
    using human_time_diff_table[of 0 0 90000000]
    by (simp add: total_seconds_int_small spec_table_def spec_unit_def)
  moreover have "human_time_diff 0 0 (Some (25 * 3600 * 1000000)) = ''since yesterday''"
    using human_time_diff_table[of 0 0 "25 * 3600 * 1000000"]
    by (simp add: total_seconds_int_small spec_table_def)
  moreover have "human_time_diff 0 (3 * 86400 * 1000000) (Some 0) = ''in 3 days''"
    using human_time_diff_table[of 0 "3 * 86400 * 1000000" 0 259200 259200000000]
    by (simp add: total_seconds_int_small spec_table_def str_int_small)
  moreover have "human_time_diff 0 (3 * 86400 * 1000000 + 999999) (Some 0) = ''in 3 days''"
    using human_time_diff_table[of 0 "3 * 86400 * 1000000 + 999999" 0 259200 259200999999]
    by (simp add: total_seconds_int_small spec_table_def str_int_small)
  moreover have "human_time_diff 0 0 (Some 17187119999999999) = ''for 545 years''"
    using human_time_diff_table[of 0 0 17187119999999999]
    by (simp add: total_seconds_int_far spec_table_def spec_unit_def str_int_small)
  moreover have "total_seconds_int 45999999 * 1000000 \<le> 45999999
      \<and> 45999999 < (total_seconds_int 45999999 + 1) * 1000000"
    using human_time_diff_table[of 0 0 0 0 45999999] by simp
  ultimately show ?thesis by simp
qed

section \<open>Properties of the filter\<close>

lemma truthy_str_simps: "truthy_str None = False" "truthy_str (Some s) = (s \<noteq> [])"
  by (simp_all add: truthy_str_def)

text \<open>
  C2: a container matches exactly when each filter that is set (a non-empty string) has
  its rule satisfied: the name rule is equality with the container's name, or a filter
  among www, php, librenms that is a substring of the name; the image rule is substring
  of the image. So every container matches when no filter is set, both rules are needed
  when both are, and one alone when one is. The filter www1 matches a container named
  www1 and, whatever the image filter, no container of another name.
\<close>

theorem container_match_rules:
  "(container_match c name_filter image_filter =
      ((truthy_str name_filter \<longrightarrow> name_rule (arg_str name_filter) c)
       \<and> (truthy_str image_filter \<longrightarrow> image_rule (arg_str image_filter) c)))
   \<and> (container_match c (Some ''www1'') None = (c_name c = ''www1''))
   \<and> (container_match c (Some ''www1'') image_filter \<longrightarrow> c_name c = ''www1'')"
proof -
  have r: "\<And>nf imf. container_match c nf imf =
      ((truthy_str nf \<longrightarrow> name_rule (arg_str nf) c)
       \<and> (truthy_str imf \<longrightarrow> image_rule (arg_str imf) c))"
    by (auto simp: container_match_def name_rule_def image_rule_def Let_def)
  have "container_match c (Some ''www1'') None = (c_name c = ''www1'')"
    by (auto simp: r truthy_str_simps name_rule_def arg_str_def)
  moreover have "container_match c (Some ''www1'') image_filter \<longrightarrow> c_name c = ''www1''"
    by (auto simp: r truthy_str_simps name_rule_def arg_str_def)
  ultimately show ?thesis using r by blast
qed

theorem container_match_rules_witness:
  "container_match (sample_container ''c1'' ''www1'' ''nginx:1.25'') (Some ''www1'') None
   \<and> \<not> container_match (sample_container ''c2'' ''www2'' ''nginx:1.25'') (Some ''www1'') None
   \<and> container_match (sample_container ''c2'' ''www2'' ''nginx:1.25'') (Some ''www'') (Some ''nginx'')
   \<and> \<not> container_match (sample_container ''c2'' ''www2'' ''nginx:1.25'') (Some ''www'') (Some ''php'')
   \<and> container_match (sample_container ''c2'' ''www2'' ''nginx:1.25'') None None"
  using container_match_rules[of "sample_container ''c1'' ''www1'' ''nginx:1.25''" "Some ''www1''" None]
    container_match_rules[of "sample_container ''c2'' ''www2'' ''nginx:1.25''" "Some ''www1''" None]
    container_match_rules[of "sample_container ''c2'' ''www2'' ''nginx:1.25''" "Some ''www''" "Some ''nginx''"]
    container_match_rules[of "sample_container ''c2'' ''www2'' ''nginx:1.25''" "Some ''www''" "Some ''php''"]
    container_match_rules[of "sample_container ''c2'' ''www2'' ''nginx:1.25''" None None]
  by (simp add: truthy_str_simps name_rule_def image_rule_def arg_str_def sample_container_def
        sublist_code(3))


section \<open>Properties of the Container model\<close>


lemma nonempty_falsy: "\<not> truthy_str v \<Longrightarrow> nonempty v = None"
  by (simp add: nonempty_def)
















lemma raw_web_fields:
  "r_created raw_web = Some ''2024-01-01T00:00:00Z''"
  "r_started raw_web = Some ''2024-06-01T12:00:00Z''"
  "r_host_id raw_web = ''h1''" "r_id raw_web = ''c1''" "r_name raw_web = ''web''"
  "r_image raw_web = ''library/nginx:1.25''"
  by (simp_all add: raw_web_def)

lemma get_version_raw_web: "get_version raw_web = Inr (Some ''1.25.3'')"
  by (simp add: get_version_def raw_web_def split_chr_once_def env_scan_def truthy_str_def
        version_env_strings_def)

lemma get_version_raw_db: "get_version raw_db = Inr (Some ''16.2'')"
  by (simp add: get_version_def raw_db_def split_chr_once_def env_scan_def truthy_str_def
        version_env_strings_def)

lemma parse_samples:
  "parse_ns_iso8601 rt0 (PStr ''2024-01-01T00:00:00Z'') = 1704067200000000"
  "parse_ns_iso8601 rt0 (PStr ''2024-06-01T12:00:00Z'') = 1717243200000000"
  "parse_ns_iso8601 rt0 (PStr ''2024-06-01T12:00:00.123456789Z'') = 1717243200123456"
  "parse_ns_iso8601 rt0 (PStr ''not a timestamp'') = 1719792000000000"
  "parse_ns_iso8601 rt0 PNone = 1719792000000000"
  by (simp_all add: parse_ns_iso8601_def rt0_def rstrip_chr_def)





text \<open>
  C5, at the record \<open>raw_web\<close>, whose \<open>created\<close> is 2024-01-01T00:00:00Z and whose
  \<open>started\<close> is 2024-06-01T12:00:00Z: the \<open>started\<close> of the constructed Container is the
  parse of \<open>created\<close>, not of the record's \<open>started\<close>.
\<close>

theorem Container_init_started_reads_created:
  "map_sum id c_started (Container_init rt0 raw_web) = Inr 1704067200000000
   \<and> map_sum id c_created (Container_init rt0 raw_web) = Inr 1704067200000000
   \<and> parse_ns_iso8601 rt0 (opt_to_pyval (r_started raw_web)) = 1717243200000000"
  by (simp add: Container_init_def get_version_raw_web parse_samples opt_to_pyval_def raw_web_fields)

text \<open>
  C6, at a detailed status with no \<open>current_version\<close> entry: the merge raises KeyError,
  whatever the container and the clock.
\<close>

theorem set_update_status_missing_current_version:
  "set_update_status rt c
     [''update_available'' \<mapsto> PBool True, ''latest_version'' \<mapsto> PStr ''2.0''] = Inl KeyError"
  by (simp add: set_update_status_def subscript_def)

section \<open>Properties of the merge of a detailed status\<close>


lemma set_update_status_steps:
  "set_update_status rt c us =
     (case us ''current_version'' of
        None \<Rightarrow> Inl KeyError
      | Some cv \<Rightarrow>
          Inr (c\<lparr>c_priv_update_status :=
                 stamp_last_checked rt (backfill_version (c_priv_version c) cv us)\<rparr>))"
  by (simp add: set_update_status_def subscript_def backfill_version_def stamp_last_checked_def
        Let_def split: option.splits)
















section \<open>Properties of get\_container\_status\<close>

lemma dict_set_keys: "fst ` set (dict_set k v d) = insert k (fst ` set d)"
proof (induction d)
  case Nil
  show ?case by simp
next
  case (Cons p d)
  obtain k' v' where p: "p = (k', v')" by (cases p)
  show ?case
  proof (cases "k' = k")
    case True
    then show ?thesis by (simp add: p)
  next
    case False
    then show ?thesis by (simp add: p Cons.IH insert_commute)
  qed
qed

lemma dict_set_subset: "set (dict_set k v d) \<subseteq> insert (k, v) (set d)"
  by (induction d) (auto split: if_splits)

lemma map_of_keys: "map_of d k = Some h \<Longrightarrow> k \<in> fst ` set d"
  by (metis map_of_eq_None_iff option.distinct(1))

lemma hosts_loop_keys:
  "fst ` set (hosts_loop a host_data hosts)
     = fst ` set hosts \<union> rh_id ` {h \<in> set host_data. host_selected a h}"
  by (induction host_data arbitrary: hosts) (auto simp: dict_set_keys host_selected_def)

lemma hosts_loop_containers:
  "(\<forall>(k, h) \<in> set hosts. h_priv_containers h = []) \<Longrightarrow>
   (\<forall>(k, h) \<in> set (hosts_loop a host_data hosts). h_priv_containers h = [])"
proof (induction host_data arbitrary: hosts)
  case Nil
  then show ?case by simp
next
  case (Cons x xs)
  show ?case
  proof (cases "\<not> truthy_str (a_host a) \<or> Some (rh_name x) = a_host a")
    case True
    have "\<forall>(k, h) \<in> set (dict_set (rh_id x) ((Host_init x)\<lparr>h_container_order := a_order a\<rparr>) hosts). h_priv_containers h = []"
      using Cons.prems dict_set_subset[of "rh_id x" "(Host_init x)\<lparr>h_container_order := a_order a\<rparr>" hosts]
      by (auto simp: Host_init_def)
    then show ?thesis using Cons.IH True by simp
  next
    case False
    then show ?thesis using Cons by simp
  qed
qed

lemma set_update_status_ids:
  "set_update_status rt c us = Inr c' \<Longrightarrow> c_host_id c' = c_host_id c \<and> c_id c' = c_id c"
  by (auto simp: set_update_status_steps split: option.splits)

lemma fetch_update_status_cases:
  assumes "fetch_update_status rt cl ups c = (reqs, Inr c')"
    and "c_container_id c = c_host_id c @ '':'' @ c_id c"
  shows "reqs = (if flagged ups c then [fetch_request c] else [])"
    and "c_id c' = c_id c" and "c_host_id c' = c_host_id c"
    and "\<not> flagged ups c \<Longrightarrow> c' = c"
proof -
  show "reqs = (if flagged ups c then [fetch_request c] else [])"
    using assms
    by (auto simp: fetch_update_status_def flagged_def fetch_request_def
          split: if_splits sum.splits)
  show "\<not> flagged ups c \<Longrightarrow> c' = c"
    using assms by (auto simp: fetch_update_status_def flagged_def split: if_splits)
  have "c_host_id c' = c_host_id c \<and> c_id c' = c_id c"
  proof (cases "c_container_id c \<in> set ups")
    case False
    then show ?thesis using assms(1) by (simp add: fetch_update_status_def)
  next
    case True
    then obtain us where "set_update_status rt c us = Inr c'"
      using assms(1) by (auto simp: fetch_update_status_def split: sum.splits)
    then show ?thesis by (rule set_update_status_ids)
  qed
  then show "c_id c' = c_id c" and "c_host_id c' = c_host_id c" by simp_all
qed

lemma Container_init_default:
  "Container_init rt r = Inr c \<Longrightarrow> update_status c = [''update_available'' \<mapsto> PBool False]"
  by (auto simp: Container_init_def update_status_def default_update_status_def Let_def
        split: sum.splits)

lemma Container_init_ids:
  "Container_init rt r = Inr c \<Longrightarrow>
     c_container_id c = c_host_id c @ '':'' @ c_id c \<and> c_host_id c = r_host_id r \<and> c_id c = r_id r"
  by (auto simp: Container_init_def Let_def split: sum.splits)

lemma keeps_default_add:
  assumes "keeps_default ups hosts" "map_of hosts k = Some h"
    "\<not> flagged ups c \<longrightarrow> update_status c = [''update_available'' \<mapsto> PBool False]"
  shows "keeps_default ups (dict_set k (add_container h c) hosts)"
proof -
  have h: "(k, h) \<in> set hosts" using assms(2) by (rule map_of_SomeD)
  have "\<forall>c' \<in> set (h_priv_containers (add_container h c)).
          \<not> flagged ups c' \<longrightarrow> update_status c' = [''update_available'' \<mapsto> PBool False]"
    using assms(1,3) h
    by (auto simp: keeps_default_def add_container_def flagged_def update_status_def)
  then show ?thesis
    using assms(1) dict_set_subset[of k "add_container h c" hosts]
    unfolding keeps_default_def by blast
qed

lemma working_set_Cons:
  "Container_init rt r = Inr c \<Longrightarrow>
   working_set rt a ks (r # data) = (if in_working_set a ks c then [c] else []) @ working_set rt a ks data"
  by (simp add: working_set_def constructed_def)

lemma containers_loop_spec:
  assumes "containers_loop rt cl a ups data hosts = (reqs, Inr hosts')" "keeps_default ups hosts"
  shows "reqs = map fetch_request (filter (flagged ups) (working_set rt a (fst ` set hosts) data))
         \<and> fst ` set hosts' = fst ` set hosts \<and> keeps_default ups hosts'"
  using assms
proof (induction data arbitrary: hosts reqs hosts')
  case Nil
  then show ?case by (simp add: working_set_def)
next
  case (Cons r data)
  obtain c where c: "Container_init rt r = Inr c"
    using Cons.prems(1) by (cases "Container_init rt r") auto
  note ws = working_set_Cons[OF c, of a "fst ` set hosts" data]
  show ?case
  proof (cases "map_of hosts (c_host_id c)")
    case None
    then have nk: "c_host_id c \<notin> fst ` set hosts" by (simp add: map_of_eq_None_iff)
    have "containers_loop rt cl a ups data hosts = (reqs, Inr hosts')"
      using Cons.prems(1) by (simp add: c None)
    from Cons.IH[OF this Cons.prems(2)] show ?thesis
      using nk by (simp add: ws in_working_set_def)
  next
    case (Some h)
    then have k: "c_host_id c \<in> fst ` set hosts" by (rule map_of_keys)
    show ?thesis
    proof (cases "container_match c (a_container a) (a_image a)")
      case False
      have "containers_loop rt cl a ups data hosts = (reqs, Inr hosts')"
        using Cons.prems(1) by (simp add: c Some False)
      from Cons.IH[OF this Cons.prems(2)] show ?thesis
        using False by (simp add: ws in_working_set_def)
    next
      case True
      then have iw: "in_working_set a (fst ` set hosts) c" using k by (simp add: in_working_set_def)
      obtain reqs1 res where f: "fetch_update_status rt cl ups c = (reqs1, res)"
        by (cases "fetch_update_status rt cl ups c")
      obtain c' where res: "res = Inr c'"
        using Cons.prems(1) by (cases res) (simp_all add: c Some True f)
      note fc = fetch_update_status_cases[OF f[unfolded res] conjunct1[OF Container_init_ids[OF c]]]
      obtain ua where ua: "(if a_updates_only a then update_available c' else Inr (PBool True)) = Inr ua"
        using Cons.prems(1)
        by (cases "if a_updates_only a then update_available c' else Inr (PBool True)")
           (simp_all add: c Some True f res)
      define hosts1 where "hosts1 =
         (if a_updates_only a \<and> \<not> truthy ua then hosts
          else dict_set (c_host_id c') (add_container h c') hosts)"
      obtain reqs2 where r2: "containers_loop rt cl a ups data hosts1 = (reqs2, Inr hosts')"
        and reqs: "reqs = reqs1 @ reqs2"
        using Cons.prems(1)
        by (auto simp: c Some True f res ua hosts1_def split: prod.splits if_splits)
      have keys1: "fst ` set hosts1 = fst ` set hosts"
        using k by (auto simp: hosts1_def dict_set_keys fc(3))
      have dflt: "\<not> flagged ups c' \<longrightarrow> update_status c' = [''update_available'' \<mapsto> PBool False]"
        using fc(2,3,4) Container_init_default[OF c] by (auto simp: flagged_def)
      have kd1: "keeps_default ups hosts1"
        using Cons.prems(2) keeps_default_add[OF Cons.prems(2) _ dflt, of "c_host_id c'" h] Some
        by (simp add: hosts1_def fc(3))
      from Cons.IH[OF r2 kd1] show ?thesis
        using iw by (simp add: ws reqs fc(1) keys1)
    qed
  qed
qed

lemma count_fetches:
  assumes "distinct (map f ws)" "c \<in> set ws"
  shows "count_list (map f (filter P ws)) (f c) = (if P c then 1 else 0)"
  using assms
proof (induction ws)
  case Nil
  then show ?case by simp
next
  case (Cons x ws)
  have none: "f x \<notin> f ` set ws" using Cons.prems(1) by simp
  show ?case
  proof (cases "c = x")
    case True
    have "count_list (map f (filter P ws)) (f x) = 0"
      using none by (auto simp: count_list_0_iff)
    then show ?thesis using True by simp
  next
    case False
    then have "c \<in> set ws" using Cons.prems(2) by simp
    moreover have "f c \<noteq> f x" using none \<open>c \<in> set ws\<close> by (metis imageI)
    ultimately show ?thesis using Cons by simp
  qed
qed

lemma fetch_update_status_requests:
  assumes "fetch_update_status rt cl ups c = (reqs, res)"
    and "c_container_id c = c_host_id c @ '':'' @ c_id c"
  shows "reqs = (if flagged ups c then [fetch_request c] else [])"
  using assms
  by (auto simp: fetch_update_status_def flagged_def fetch_request_def
        split: if_splits sum.splits)

lemma containers_loop_constructs:
  "containers_loop rt cl a ups data hosts = (reqs, Inr hosts') \<Longrightarrow>
   \<forall>r \<in> set data. \<exists>c. Container_init rt r = Inr c"
proof (induction data arbitrary: hosts reqs)
  case Nil
  then show ?case by simp
next
  case (Cons r data)
  obtain c where c: "Container_init rt r = Inr c"
    using Cons.prems by (cases "Container_init rt r") auto
  have "\<exists>hosts1 reqs1. containers_loop rt cl a ups data hosts1 = (reqs1, Inr hosts')"
    using Cons.prems
    by (auto simp: c Let_def split: option.splits if_splits prod.splits sum.splits)
  then show ?case using Cons.IH c by auto
qed

lemma containers_loop_prefix:
  "containers_loop rt cl a ups data hosts = (reqs, res) \<Longrightarrow>
   prefix reqs (map fetch_request (filter (flagged ups) (working_set rt a (fst ` set hosts) data)))"
proof (induction data arbitrary: hosts reqs res)
  case Nil
  then show ?case by simp
next
  case (Cons r data)
  show ?case
  proof (cases "Container_init rt r")
    case (Inl e)
    then have "reqs = []" using Cons.prems by simp
    then show ?thesis by simp
  next
    case (Inr c)
    note c = Inr
    note ws = working_set_Cons[OF c, of a "fst ` set hosts" data]
    show ?thesis
    proof (cases "map_of hosts (c_host_id c)")
      case None
      then have nk: "c_host_id c \<notin> fst ` set hosts" by (simp add: map_of_eq_None_iff)
      have "containers_loop rt cl a ups data hosts = (reqs, res)"
        using Cons.prems by (simp add: c None)
      from Cons.IH[OF this] show ?thesis using nk by (simp add: ws in_working_set_def)
    next
      case (Some h)
      then have k: "c_host_id c \<in> fst ` set hosts" by (rule map_of_keys)
      show ?thesis
      proof (cases "container_match c (a_container a) (a_image a)")
        case False
        have "containers_loop rt cl a ups data hosts = (reqs, res)"
          using Cons.prems by (simp add: c Some False)
        from Cons.IH[OF this] show ?thesis using False by (simp add: ws in_working_set_def)
      next
        case True
        then have iw: "in_working_set a (fst ` set hosts) c"
          using k by (simp add: in_working_set_def)
        obtain reqs1 res1 where f: "fetch_update_status rt cl ups c = (reqs1, res1)"
          by (cases "fetch_update_status rt cl ups c")
        have r1: "reqs1 = (if flagged ups c then [fetch_request c] else [])"
          using fetch_update_status_requests[OF f conjunct1[OF Container_init_ids[OF c]]] .
        have ex: "map fetch_request (filter (flagged ups) (working_set rt a (fst ` set hosts) (r # data)))
                = reqs1 @ map fetch_request (filter (flagged ups) (working_set rt a (fst ` set hosts) data))"
          using iw by (simp add: ws r1)
        show ?thesis
        proof (cases res1)
          case (Inl e)
          then have "reqs = reqs1" using Cons.prems by (simp add: c Some True f)
          then show ?thesis unfolding ex by simp
        next
          case (Inr c')
          note res1 = Inr
          note fc = fetch_update_status_cases[OF f[unfolded res1] conjunct1[OF Container_init_ids[OF c]]]
          show ?thesis
          proof (cases "if a_updates_only a then update_available c' else Inr (PBool True)")
            case (Inl e)
            then have "reqs = reqs1" using Cons.prems by (simp add: c Some True f res1)
            then show ?thesis unfolding ex by simp
          next
            case (Inr ua)
            define hosts1 where "hosts1 =
               (if a_updates_only a \<and> \<not> truthy ua then hosts
                else dict_set (c_host_id c') (add_container h c') hosts)"
            obtain reqs2 where r2: "containers_loop rt cl a ups data hosts1 = (reqs2, res)"
              and reqs: "reqs = reqs1 @ reqs2"
              using Cons.prems
              by (auto simp: c Some True f res1 Inr hosts1_def split: prod.splits if_splits)
            have keys1: "fst ` set hosts1 = fst ` set hosts"
              using k by (auto simp: hosts1_def dict_set_keys fc(3))
            from Cons.IH[OF r2] show ?thesis unfolding ex reqs by (simp add: keys1)
          qed
        qed
      qed
    qed
  qed
qed

lemma Container_init_raises:
  "r_labels r = None \<Longrightarrow> Container_init rt r = Inl AttributeError"
  "r_labels r \<noteq> None \<Longrightarrow> CHR '':'' \<notin> set (r_image r) \<Longrightarrow> Container_init rt r = Inl IndexError"
  by (auto simp: Container_init_def get_version_def split_chr_once_def Let_def)

lemma get_container_status_loop:
  assumes "cl_hosts cl = Inr host_data" "cl_updates_summary cl = Inr updates"
    "cl_containers cl = Inr data"
  shows "get_container_status rt cl a =
     (let (reqs, r) = containers_loop rt cl a (summary_ids updates) data (hosts_loop a host_data [])
      in ([GetHosts, GetUpdatesSummary, GetContainers] @ reqs, r))"
  by (simp add: get_container_status_def assms Let_def summary_ids_def)

lemma hosts_loop_start:
  "fst ` set (hosts_loop a host_data []) = selected_host_ids a host_data"
  by (simp add: hosts_loop_keys selected_host_ids_def)

lemma hosts_loop_keeps_default: "keeps_default ups (hosts_loop a host_data [])"
proof -
  have "\<forall>(k, h) \<in> set (hosts_loop a host_data []). h_priv_containers h = []"
    by (rule hosts_loop_containers) simp
  then show ?thesis by (auto simp: keeps_default_def)
qed

lemma get_container_status_raises:
  assumes "r \<in> set data" "Container_init rt r = Inl e"
    "cl_hosts cl = Inr host_data" "cl_updates_summary cl = Inr updates"
    "cl_containers cl = Inr data"
  shows "\<exists>reqs e'. get_container_status rt cl a = (reqs, Inl e')"
proof -
  obtain reqs1 res where l:
    "containers_loop rt cl a (summary_ids updates) data (hosts_loop a host_data []) = (reqs1, res)"
    by (cases "containers_loop rt cl a (summary_ids updates) data (hosts_loop a host_data [])")
  have "\<exists>e'. res = Inl e'"
  proof (cases res)
    case (Inl e')
    then show ?thesis by simp
  next
    case (Inr hosts')
    then have "\<exists>c. Container_init rt r = Inr c"
      using containers_loop_constructs[OF l[unfolded Inr]] assms(1) by blast
    then show ?thesis using assms(2) by simp
  qed
  then show ?thesis
    using l by (auto simp: get_container_status_loop[OF assms(3,4,5)])
qed

lemma raw_db_fields:
  "r_created raw_db = Some ''not a timestamp''" "r_started raw_db = None"
  "r_host_id raw_db = ''h1''" "r_id raw_db = ''c2''" "r_name raw_db = ''db''"
  "r_image raw_db = ''postgres:16''"
  by (simp_all add: raw_db_def)

lemma init_web:
  "\<exists>c. Container_init rt0 raw_web = Inr c \<and> c_host_id c = ''h1'' \<and> c_id c = ''c1''
       \<and> c_container_id c = ''h1:c1''"
  by (simp add: Container_init_def get_version_raw_web raw_web_fields)

lemma init_db:
  "\<exists>c. Container_init rt0 raw_db = Inr c \<and> c_host_id c = ''h1'' \<and> c_id c = ''c2''
       \<and> c_container_id c = ''h1:c2''"
  by (simp add: Container_init_def get_version_raw_db raw_db_fields)

lemma cl0_fields:
  "cl_hosts cl0 = Inr [host_alpha]" "cl_updates_summary cl0 = Inr (Some [''h1:c1''])"
  "cl_containers cl0 = Inr [raw_web, raw_db]"
  "cl_update_status cl0 = (\<lambda>host_id container_id. Inr status_web)"
  by (simp_all add: cl0_def)

lemma args0_fields:
  "a_host args0 = None" "a_container args0 = None" "a_image args0 = None"
  "\<not> a_updates_only args0" "a_order args0 = ''name''" "\<not> a_json args0"
  by (simp_all add: args0_def)

lemma hosts0: "hosts_loop args0 [host_alpha] [] = [(''h1'', (Host_init host_alpha)\<lparr>h_container_order := ''name''\<rparr>)]"
  by (simp add: args0_fields truthy_str_simps host_alpha_def)

lemma status_web_current: "status_web ''current_version'' = Some PNone"
  by (simp add: status_web_def)

lemma sample_run:
  "\<exists>hosts. get_container_status rt0 cl0 args0 =
      ([GetHosts, GetUpdatesSummary, GetContainers, GetUpdateStatus ''h1'' ''c1''], Inr hosts)"
proof -
  obtain cw where cw: "Container_init rt0 raw_web = Inr cw" "c_host_id cw = ''h1''"
    "c_id cw = ''c1''" "c_container_id cw = ''h1:c1''"
    using init_web by blast
  obtain cd where cd: "Container_init rt0 raw_db = Inr cd" "c_host_id cd = ''h1''"
    "c_id cd = ''c2''" "c_container_id cd = ''h1:c2''"
    using init_db by blast
  have m: "container_match c None None" for c
    by (simp add: container_match_def truthy_str_simps)
  show ?thesis
    by (simp add: get_container_status_loop[OF cl0_fields(1,2,3)] hosts0 summary_ids_def cw cd
          args0_fields m fetch_update_status_def cl0_fields(4) set_update_status_steps
          status_web_current host_alpha_def truthy_str_simps)
qed

lemma sample_working_set:
  "\<exists>cw cd. working_set rt0 args0 (selected_host_ids args0 [host_alpha]) [raw_web, raw_db] = [cw, cd]
     \<and> c_host_id cw = ''h1'' \<and> c_id cw = ''c1'' \<and> c_host_id cd = ''h1'' \<and> c_id cd = ''c2''"
proof -
  obtain cw where cw: "Container_init rt0 raw_web = Inr cw" "c_host_id cw = ''h1''"
    "c_id cw = ''c1''" "c_container_id cw = ''h1:c1''"
    using init_web by blast
  obtain cd where cd: "Container_init rt0 raw_db = Inr cd" "c_host_id cd = ''h1''"
    "c_id cd = ''c2''" "c_container_id cd = ''h1:c2''"
    using init_db by blast
  have m: "container_match c None None" for c
    by (simp add: container_match_def truthy_str_simps)
  have "working_set rt0 args0 (selected_host_ids args0 [host_alpha]) [raw_web, raw_db] = [cw, cd]"
    by (simp add: working_set_def constructed_def cw cd in_working_set_def selected_host_ids_def
          host_selected_def args0_fields truthy_str_simps m host_alpha_def)
  then show ?thesis using cw cd by blast
qed

text \<open>
  C1: once the hosts, the update summary and the containers listing have been fetched,
  the requests of \<open>get_container_status\<close> are those three, each once, followed by one
  detail fetch for each container of the working set whose composite id (host id, a
  colon, id) the summary lists, in the order of the listing, and by nothing else. On a
  run that raises, the requests sent so far are a prefix of that list. On a run that
  returns they are the whole list; so, the containers of the working set being told
  apart by host id and id, each of them is fetched once if it is flagged and not at
  all otherwise, and every container kept on a host that is not flagged has the
  \<open>update_status\<close> \<open>{update_available: False}\<close>.
\<close>

theorem get_container_status_fetches:
  assumes "get_container_status rt cl a = (reqs, res)"
    and "cl_hosts cl = Inr host_data" and "cl_updates_summary cl = Inr updates"
    and "cl_containers cl = Inr data"
  shows "prefix reqs
           ([GetHosts, GetUpdatesSummary, GetContainers]
              @ map fetch_request
                  (filter (flagged (summary_ids updates))
                     (working_set rt a (selected_host_ids a host_data) data)))
         \<and> (\<forall>hosts. res = Inr hosts \<longrightarrow>
               reqs = [GetHosts, GetUpdatesSummary, GetContainers]
                        @ map fetch_request
                            (filter (flagged (summary_ids updates))
                               (working_set rt a (selected_host_ids a host_data) data))
               \<and> (distinct (map fetch_request
                              (working_set rt a (selected_host_ids a host_data) data)) \<longrightarrow>
                    (\<forall>c \<in> set (working_set rt a (selected_host_ids a host_data) data).
                       count_list reqs (fetch_request c)
                         = (if flagged (summary_ids updates) c then 1 else 0)))
               \<and> keeps_default (summary_ids updates) hosts)"
proof -
  define ws where "ws = working_set rt a (selected_host_ids a host_data) data"
  define hosts0 where "hosts0 = hosts_loop a host_data []"
  obtain reqs1 where loop:
    "containers_loop rt cl a (summary_ids updates) data hosts0 = (reqs1, res)"
    and reqs: "reqs = [GetHosts, GetUpdatesSummary, GetContainers] @ reqs1"
    using assms(1)
    by (auto simp: get_container_status_loop[OF assms(2,3,4)] hosts0_def split: prod.splits)
  have keys0: "fst ` set hosts0 = selected_host_ids a host_data"
    by (simp add: hosts0_def hosts_loop_start)
  have p: "prefix reqs1 (map fetch_request (filter (flagged (summary_ids updates)) ws))"
    using containers_loop_prefix[OF loop] by (simp add: keys0 ws_def)
  have full: "reqs = [GetHosts, GetUpdatesSummary, GetContainers]
                        @ map fetch_request (filter (flagged (summary_ids updates)) ws)
               \<and> (distinct (map fetch_request ws) \<longrightarrow>
                    (\<forall>c \<in> set ws. count_list reqs (fetch_request c)
                         = (if flagged (summary_ids updates) c then 1 else 0)))
               \<and> keeps_default (summary_ids updates) hosts" if r: "res = Inr hosts" for hosts
  proof -
    have kd0: "keeps_default (summary_ids updates) hosts0"
      unfolding hosts0_def by (rule hosts_loop_keeps_default)
    from containers_loop_spec[OF loop[unfolded r] kd0]
    have r1: "reqs1 = map fetch_request (filter (flagged (summary_ids updates)) ws)"
      and kd: "keeps_default (summary_ids updates) hosts"
      by (simp_all add: keys0 ws_def)
    have cnt: "count_list reqs (fetch_request c) = (if flagged (summary_ids updates) c then 1 else 0)"
      if "distinct (map fetch_request ws)" "c \<in> set ws" for c
      using count_fetches[OF that, of "flagged (summary_ids updates)"]
      by (simp add: reqs r1 fetch_request_def)
    show ?thesis using r1 kd cnt reqs by blast
  qed
  have "prefix reqs ([GetHosts, GetUpdatesSummary, GetContainers]
              @ map fetch_request (filter (flagged (summary_ids updates)) ws))"
    using p by (simp add: reqs)
  then show ?thesis
    using full unfolding ws_def by blast
qed

theorem get_container_status_fetches_witness:
  "fst (get_container_status rt0 cl0 args0)
     = [GetHosts, GetUpdatesSummary, GetContainers, GetUpdateStatus ''h1'' ''c1'']
   \<and> (\<exists>hosts. snd (get_container_status rt0 cl0 args0) = Inr hosts)
   \<and> count_list (fst (get_container_status rt0 cl0 args0)) (GetUpdateStatus ''h1'' ''c1'') = 1
   \<and> count_list (fst (get_container_status rt0 cl0 args0)) (GetUpdateStatus ''h1'' ''c2'') = 0"
proof -
  obtain hosts where run: "get_container_status rt0 cl0 args0 =
      ([GetHosts, GetUpdatesSummary, GetContainers, GetUpdateStatus ''h1'' ''c1''], Inr hosts)"
    using sample_run by blast
  obtain cw cd where ws:
    "working_set rt0 args0 (selected_host_ids args0 [host_alpha]) [raw_web, raw_db] = [cw, cd]"
    and ids: "c_host_id cw = ''h1''" "c_id cw = ''c1''" "c_host_id cd = ''h1''" "c_id cd = ''c2''"
    using sample_working_set by blast
  have f: "flagged (summary_ids (Some [''h1:c1''])) cw" "\<not> flagged (summary_ids (Some [''h1:c1''])) cd"
    by (simp_all add: flagged_def summary_ids_def ids)
  have q: "fetch_request cw = GetUpdateStatus ''h1'' ''c1''"
    "fetch_request cd = GetUpdateStatus ''h1'' ''c2''"
    by (simp_all add: fetch_request_def ids)
  note t = get_container_status_fetches[OF run cl0_fields(1,2,3), unfolded ws]
  have "count_list [GetHosts, GetUpdatesSummary, GetContainers, GetUpdateStatus ''h1'' ''c1'']
          (GetUpdateStatus ''h1'' ''c1'') = 1
        \<and> count_list [GetHosts, GetUpdatesSummary, GetContainers, GetUpdateStatus ''h1'' ''c1'']
          (GetUpdateStatus ''h1'' ''c2'') = 0"
    using t f by (simp add: q)
  then show ?thesis using run by simp
qed

text \<open>
  C10: construction raises AttributeError on a record with no \<open>labels\<close> field and
  IndexError on one with labels whose image has no colon. Nothing catches it: when the
  three listings have been fetched and a record of the containers listing cannot be
  constructed, \<open>get_container_status\<close> raises.
\<close>

theorem Container_init_not_total:
  "(r_labels r = None \<longrightarrow> Container_init rt r = Inl AttributeError)
   \<and> (r_labels r \<noteq> None \<and> CHR '':'' \<notin> set (r_image r) \<longrightarrow>
        Container_init rt r = Inl IndexError)
   \<and> (r \<in> set data \<and> Container_init rt r = Inl e \<and> cl_hosts cl = Inr host_data
        \<and> cl_updates_summary cl = Inr updates \<and> cl_containers cl = Inr data \<longrightarrow>
        (\<exists>reqs e'. get_container_status rt cl a = (reqs, Inl e')))"
  using Container_init_raises[of r rt] get_container_status_raises[of r data rt e cl host_data updates a]
  by blast

lemma init_notag: "Container_init rt0 raw_notag = Inl IndexError"
  by (simp add: Container_init_def get_version_def raw_notag_def raw_web_def split_chr_once_def)

theorem Container_init_not_total_witness:
  "Container_init rt0 raw_nolabels = Inl AttributeError
   \<and> Container_init rt0 raw_notag = Inl IndexError
   \<and> (\<exists>reqs e. get_container_status rt0 cl_notag args0 = (reqs, Inl e))"
proof -
  have 1: "r_labels raw_nolabels = None" by (simp add: raw_nolabels_def)
  have 2: "r_labels raw_notag \<noteq> None \<and> CHR '':'' \<notin> set (r_image raw_notag)"
    by (simp add: raw_notag_def raw_web_def)
  have 3: "raw_notag \<in> set [raw_web, raw_notag]" by simp
  have 4: "cl_hosts cl_notag = Inr [host_alpha]"
    "cl_updates_summary cl_notag = Inr (Some [''h1:c1''])"
    "cl_containers cl_notag = Inr [raw_web, raw_notag]"
    by (simp_all add: cl_notag_def cl0_def)
  have a: "Container_init rt0 raw_nolabels = Inl AttributeError"
    using Container_init_not_total[of raw_nolabels rt0] 1 by blast
  have b: "Container_init rt0 raw_notag = Inl IndexError"
    using Container_init_not_total[of raw_notag rt0] 2 by blast
  have "\<exists>reqs e. get_container_status rt0 cl_notag args0 = (reqs, Inl e)"
    using Container_init_not_total[of raw_notag rt0 "[raw_web, raw_notag]" IndexError cl_notag
        "[host_alpha]" "Some [''h1:c1'']" args0] 3 4 b
    by blast
  then show ?thesis using a b by blast
qed

section \<open>Properties of the mutating actions\<close>

lemma requests_of_append: "requests_of (xs @ ys) = requests_of xs @ requests_of ys"
  by (induction xs rule: requests_of.induct) auto

lemma results_of_append: "results_of (xs @ ys) = results_of xs @ results_of ys"
  by (induction xs rule: results_of.induct) auto

lemma execute_update_events:
  "execute_update cl host_id container_id quiet =
     (Request (PostExecuteUpdate host_id container_id) #
        (if quiet then [] else [Print (rendered_line (cl_execute_update cl host_id container_id))]),
      cl_execute_update cl host_id container_id)"
  by (simp add: execute_update_def rendered_line_def glyph_ok_def glyph_error_def
        split: response.splits)

lemma execute_restart_events:
  "execute_restart cl host_id container_id True =
     ([Request (PostRestart host_id container_id)], cl_restart cl host_id container_id)"
  "requests_of (fst (execute_restart cl host_id container_id quiet)) = [PostRestart host_id container_id]"
  "results_of (fst (execute_restart cl host_id container_id quiet)) = []"
  "Exit \<notin> set (fst (execute_restart cl host_id container_id quiet))"
  by (simp_all add: execute_restart_def split: response.splits)

lemma update_containers_json:
  "a_json a \<Longrightarrow> update_containers a cl h cs =
     (case cs of [] \<Rightarrow> ([], False)
      | c # _ \<Rightarrow> ([Request (PostExecuteUpdate (h_id h) (c_id c)),
                   PrintJson (cl_execute_update cl (h_id h) (c_id c)), Exit], True))"
  by (cases cs) (simp_all add: execute_update_events)

lemma restart_containers_json:
  "a_json a \<Longrightarrow> restart_containers a cl h cs =
     (case cs of [] \<Rightarrow> ([], False)
      | c # _ \<Rightarrow> ([Request (PostRestart (h_id h) (c_id c)),
                   PrintJson (cl_restart cl (h_id h) (c_id c)), Exit], True))"
  by (cases cs) (simp_all add: execute_restart_events(1))

lemma update_containers_interactive:
  "\<not> a_json a \<Longrightarrow>
     requests_of (fst (update_containers a cl h cs)) = map (\<lambda>c. PostExecuteUpdate (h_id h) (c_id c)) cs
     \<and> results_of (fst (update_containers a cl h cs)) = []
     \<and> Exit \<notin> set (fst (update_containers a cl h cs))
     \<and> \<not> snd (update_containers a cl h cs)"
proof (induction cs)
  case Nil
  then show ?case by simp
next
  case (Cons c cs)
  then show ?case
    by (auto simp: execute_update_events split: prod.splits)
qed

lemma restart_containers_interactive:
  "\<not> a_json a \<Longrightarrow>
     requests_of (fst (restart_containers a cl h cs)) = map (\<lambda>c. PostRestart (h_id h) (c_id c)) cs
     \<and> results_of (fst (restart_containers a cl h cs)) = []
     \<and> Exit \<notin> set (fst (restart_containers a cl h cs))
     \<and> \<not> snd (restart_containers a cl h cs)"
proof (induction cs)
  case Nil
  then show ?case by simp
next
  case (Cons c cs)
  obtain evs r where e: "execute_restart cl (h_id h) (c_id c) False = (evs, r)"
    by (cases "execute_restart cl (h_id h) (c_id c) False")
  have ev: "requests_of evs = [PostRestart (h_id h) (c_id c)]" "results_of evs = []"
    "Exit \<notin> set evs"
    using execute_restart_events(2,3,4)[of cl "h_id h" "c_id c" False] e by simp_all
  obtain rest ex where u: "restart_containers a cl h cs = (rest, ex)"
    by (cases "restart_containers a cl h cs")
  show ?case
    using Cons ev
    by (simp add: e u requests_of_append results_of_append)
qed

lemma matched_Cons:
  "matched (h # hs) = (case containers h of Inl e \<Rightarrow> [] | Inr cs \<Rightarrow> map (Pair h) cs) @ matched hs"
  by (simp add: matched_def)

lemma update_hosts_json:
  assumes "a_json a" "\<forall>h\<in>set hs. \<exists>cs. containers h = Inr cs"
  shows "update_hosts a cl hs =
     (case matched hs of [] \<Rightarrow> []
      | (h, c) # _ \<Rightarrow> [Request (PostExecuteUpdate (h_id h) (c_id c)),
                   PrintJson (cl_execute_update cl (h_id h) (c_id c)), Exit])"
  using assms
proof (induction hs)
  case Nil
  then show ?case by (simp add: matched_def)
next
  case (Cons h hs)
  then obtain cs where cs: "containers h = Inr cs" by auto
  show ?case
  proof (cases cs)
    case Nil
    then show ?thesis using Cons cs by (simp add: matched_Cons update_containers_json)
  next
    case (Cons c cs')
    then show ?thesis using \<open>a_json a\<close> cs by (simp add: matched_Cons execute_update_events)
  qed
qed

lemma restart_hosts_json:
  assumes "a_json a" "\<forall>h\<in>set hs. \<exists>cs. containers h = Inr cs"
  shows "restart_hosts a cl hs =
     (case matched hs of [] \<Rightarrow> []
      | (h, c) # _ \<Rightarrow> [Request (PostRestart (h_id h) (c_id c)),
                   PrintJson (cl_restart cl (h_id h) (c_id c)), Exit])"
  using assms
proof (induction hs)
  case Nil
  then show ?case by (simp add: matched_def)
next
  case (Cons h hs)
  then obtain cs where cs: "containers h = Inr cs" by auto
  show ?case
  proof (cases cs)
    case Nil
    then show ?thesis using Cons cs by (simp add: matched_Cons restart_containers_json)
  next
    case (Cons c cs')
    then show ?thesis using \<open>a_json a\<close> cs by (simp add: matched_Cons execute_restart_events(1))
  qed
qed

lemma update_hosts_interactive:
  assumes "\<not> a_json a" "\<forall>h\<in>set hs. \<exists>cs. containers h = Inr cs"
  shows "requests_of (update_hosts a cl hs) = map (\<lambda>(h, c). PostExecuteUpdate (h_id h) (c_id c)) (matched hs)
     \<and> results_of (update_hosts a cl hs) = []
     \<and> Exit \<notin> set (update_hosts a cl hs)"
  using assms
proof (induction hs)
  case Nil
  then show ?case by (simp add: matched_def)
next
  case (Cons h hs)
  then obtain cs where cs: "containers h = Inr cs" by auto
  have IH: "requests_of (update_hosts a cl hs) = map (\<lambda>(h, c). PostExecuteUpdate (h_id h) (c_id c)) (matched hs)
     \<and> results_of (update_hosts a cl hs) = []
     \<and> Exit \<notin> set (update_hosts a cl hs)" using Cons by simp
  obtain evs ex where u: "update_containers a cl h cs = (evs, ex)" by (cases "update_containers a cl h cs")
  have uc: "requests_of evs = map (\<lambda>c. PostExecuteUpdate (h_id h) (c_id c)) cs"
      "results_of evs = []" "Exit \<notin> set evs" "\<not> ex"
    using update_containers_interactive[OF \<open>\<not> a_json a\<close>, of cl h cs] u by simp_all
  show ?case using IH uc
    by (simp add: cs u matched_Cons requests_of_append results_of_append comp_def)
qed

lemma restart_hosts_interactive:
  assumes "\<not> a_json a" "\<forall>h\<in>set hs. \<exists>cs. containers h = Inr cs"
  shows "requests_of (restart_hosts a cl hs) = map (\<lambda>(h, c). PostRestart (h_id h) (c_id c)) (matched hs)
     \<and> results_of (restart_hosts a cl hs) = []
     \<and> Exit \<notin> set (restart_hosts a cl hs)"
  using assms
proof (induction hs)
  case Nil
  then show ?case by (simp add: matched_def)
next
  case (Cons h hs)
  then obtain cs where cs: "containers h = Inr cs" by auto
  have IH: "requests_of (restart_hosts a cl hs) = map (\<lambda>(h, c). PostRestart (h_id h) (c_id c)) (matched hs)
     \<and> results_of (restart_hosts a cl hs) = []
     \<and> Exit \<notin> set (restart_hosts a cl hs)" using Cons by simp
  obtain evs ex where u: "restart_containers a cl h cs = (evs, ex)" by (cases "restart_containers a cl h cs")
  have uc: "requests_of evs = map (\<lambda>c. PostRestart (h_id h) (c_id c)) cs"
      "results_of evs = []" "Exit \<notin> set evs" "\<not> ex"
    using restart_containers_interactive[OF \<open>\<not> a_json a\<close>, of cl h cs] u by simp_all
  show ?case using IH uc
    by (simp add: cs u matched_Cons requests_of_append results_of_append comp_def)
qed

text \<open>
  C8, as claimed: an execute-update that fails with the detail ``No update available for
  this container'' is rendered with the success glyph. In quiet mode, which is the mode
  of structured output, \<open>execute_update\<close> sends the request and returns the error body
  and renders nothing.
\<close>

theorem execute_update_quiet_counterexample:
  "cl_execute_update cl0 ''h1'' ''c1'' = ErrorBody ''No update available for this container''
   \<and> execute_update cl0 ''h1'' ''c1'' True =
       ([Request (PostExecuteUpdate ''h1'' ''c1'')],
        ErrorBody ''No update available for this container'')"
  by (simp add: execute_update_def cl0_def)

text \<open>
  C8, amended: \<open>execute_update\<close> sends one execute-update request and returns the decoded
  body, the error body of a failed request as well as the result of a successful one.
  Unless it is quiet it prints one line in between: the success glyph and the detail for
  the detail ``No update available for this container'', the error glyph, ``HTTP
  exception:'' and the detail for every other error detail, and for a successful response
  the message after the success glyph if the status is ``success'', after the error
  glyph otherwise. When it is quiet it prints nothing.
\<close>

theorem execute_update_classification:
  "execute_update cl host_id container_id quiet =
     (Request (PostExecuteUpdate host_id container_id) #
        (if quiet then [] else [Print (rendered_line (cl_execute_update cl host_id container_id))]),
      cl_execute_update cl host_id container_id)"
  by (rule execute_update_events)

theorem execute_update_classification_witness:
  "execute_update cl0 ''h1'' ''c1'' False =
     ([Request (PostExecuteUpdate ''h1'' ''c1''),
       Print ([CHR 0xE2, CHR 0x9C, CHR 0x85] @ '' No update available for this container'')],
      ErrorBody ''No update available for this container'')
   \<and> execute_update (cl0\<lparr>cl_execute_update := \<lambda>h c. ErrorBody ''Container not found''\<rparr>)
        ''h1'' ''c1'' False =
     ([Request (PostExecuteUpdate ''h1'' ''c1''),
       Print ([CHR 0xE2, CHR 0x9D, CHR 0x8C] @ '' HTTP exception: Container not found'')],
      ErrorBody ''Container not found'')
   \<and> execute_update (cl0\<lparr>cl_execute_update := \<lambda>h c. Result ''success'' ''Updated''\<rparr>)
        ''h1'' ''c1'' False =
     ([Request (PostExecuteUpdate ''h1'' ''c1''),
       Print ([CHR 0xE2, CHR 0x9C, CHR 0x85] @ '' Updated'')],
      Result ''success'' ''Updated'')
   \<and> execute_update (cl0\<lparr>cl_execute_update := \<lambda>h c. Result ''error'' ''Pull failed''\<rparr>)
        ''h1'' ''c1'' False =
     ([Request (PostExecuteUpdate ''h1'' ''c1''),
       Print ([CHR 0xE2, CHR 0x9D, CHR 0x8C] @ '' Pull failed'')],
      Result ''error'' ''Pull failed'')"
  using execute_update_classification[of cl0 "''h1''" "''c1''" False]
    execute_update_classification[of "cl0\<lparr>cl_execute_update := \<lambda>h c. ErrorBody ''Container not found''\<rparr>"
      "''h1''" "''c1''" False]
    execute_update_classification[of "cl0\<lparr>cl_execute_update := \<lambda>h c. Result ''success'' ''Updated''\<rparr>"
      "''h1''" "''c1''" False]
    execute_update_classification[of "cl0\<lparr>cl_execute_update := \<lambda>h c. Result ''error'' ''Pull failed''\<rparr>"
      "''h1''" "''c1''" False]
  by (simp add: rendered_line_def cl0_def)

text \<open>
  C7, as claimed: in structured-output mode exactly one result is printed, however many
  containers matched. With hosts that hold no matched container the update branch and
  the restart branch send nothing, print nothing and do not exit.
\<close>

theorem main_update_no_match_counterexample:
  "a_json args_json \<and> matched (map snd hosts_empty) = []
   \<and> results_of (main_update args_json cl0 hosts_empty) = []
   \<and> main_update args_json cl0 hosts_empty = []
   \<and> main_restart args_json cl0 hosts_empty = []"
  by (simp add: args_json_def args0_def hosts_empty_def matched_def main_update_def
        main_restart_def containers_def sample_host_def)

text \<open>
  C7, amended: where every host enumerates its containers without raising, the update and
  the restart branch in structured-output mode do nothing at all when no container
  matched, and otherwise send the one request for the first matched container, print its
  result and exit. In interactive mode they send one request for every matched
  container, in order, print no result as JSON and do not exit.
\<close>

theorem dispatch_json_exits_after_first:
  assumes "\<forall>h \<in> set (map snd hosts). \<exists>cs. containers h = Inr cs"
  shows "(a_json a \<longrightarrow>
            main_update a cl hosts =
              (case matched (map snd hosts) of
                 [] \<Rightarrow> []
               | (h, c) # _ \<Rightarrow>
                   [Request (PostExecuteUpdate (h_id h) (c_id c)),
                    PrintJson (cl_execute_update cl (h_id h) (c_id c)), Exit])
            \<and> main_restart a cl hosts =
              (case matched (map snd hosts) of
                 [] \<Rightarrow> []
               | (h, c) # _ \<Rightarrow>
                   [Request (PostRestart (h_id h) (c_id c)),
                    PrintJson (cl_restart cl (h_id h) (c_id c)), Exit]))
         \<and> (\<not> a_json a \<longrightarrow>
              requests_of (main_update a cl hosts)
                = map (\<lambda>(h, c). PostExecuteUpdate (h_id h) (c_id c)) (matched (map snd hosts))
              \<and> results_of (main_update a cl hosts) = []
              \<and> Exit \<notin> set (main_update a cl hosts)
              \<and> requests_of (main_restart a cl hosts)
                = map (\<lambda>(h, c). PostRestart (h_id h) (c_id c)) (matched (map snd hosts))
              \<and> results_of (main_restart a cl hosts) = []
              \<and> Exit \<notin> set (main_restart a cl hosts))"
  using update_hosts_json[OF _ assms, of a cl] restart_hosts_json[OF _ assms, of a cl]
    update_hosts_interactive[OF _ assms, of a cl] restart_hosts_interactive[OF _ assms, of a cl]
  unfolding main_update_def main_restart_def by blast

lemma containers_samples:
  "containers (sample_host ''h1'' ''alpha''
                 [sample_container ''c1'' ''web'' ''nginx:1.25'',
                  sample_container ''c2'' ''db'' ''postgres:16''])
    = Inr [sample_container ''c2'' ''db'' ''postgres:16'', sample_container ''c1'' ''web'' ''nginx:1.25'']"
  "containers (sample_host ''h2'' ''beta'' [sample_container ''c3'' ''cache'' ''redis:7''])
    = Inr [sample_container ''c3'' ''cache'' ''redis:7'']"
  by (simp_all add: containers_def sample_host_def sample_container_def)

theorem dispatch_json_exits_after_first_witness:
  "main_update args_json cl0 hosts_two =
     [Request (PostExecuteUpdate ''h1'' ''c2''),
      PrintJson (ErrorBody ''No update available for this container''), Exit]
   \<and> main_restart args_json cl0 hosts_two =
     [Request (PostRestart ''h1'' ''c2''),
      PrintJson (Result ''success'' ''Container restarted''), Exit]
   \<and> requests_of (main_update args0 cl0 hosts_two) =
     [PostExecuteUpdate ''h1'' ''c2'', PostExecuteUpdate ''h1'' ''c1'', PostExecuteUpdate ''h2'' ''c3'']
   \<and> requests_of (main_restart args0 cl0 hosts_two) =
     [PostRestart ''h1'' ''c2'', PostRestart ''h1'' ''c1'', PostRestart ''h2'' ''c3'']
   \<and> results_of (main_update args0 cl0 hosts_two) = []"
proof -
  have h: "\<forall>h \<in> set (map snd hosts_two). \<exists>cs. containers h = Inr cs"
    by (simp add: hosts_two_def containers_samples)
  have m: "matched (map snd hosts_two) =
     [(sample_host ''h1'' ''alpha''
                 [sample_container ''c1'' ''web'' ''nginx:1.25'',
                  sample_container ''c2'' ''db'' ''postgres:16''], sample_container ''c2'' ''db'' ''postgres:16''),
      (sample_host ''h1'' ''alpha''
                 [sample_container ''c1'' ''web'' ''nginx:1.25'',
                  sample_container ''c2'' ''db'' ''postgres:16''], sample_container ''c1'' ''web'' ''nginx:1.25''),
      (sample_host ''h2'' ''beta'' [sample_container ''c3'' ''cache'' ''redis:7''],
       sample_container ''c3'' ''cache'' ''redis:7'')]"
    by (simp add: matched_def hosts_two_def containers_samples)
  have j: "a_json args_json" "\<not> a_json args0" by (simp_all add: args_json_def args0_def)
  have i: "h_id (sample_host x y z) = x" "c_id (sample_container u v w) = u" for x y z u v w
    by (simp_all add: sample_host_def sample_container_def)
  have c: "cl_execute_update cl0 = (\<lambda>h c. ErrorBody ''No update available for this container'')"
    "cl_restart cl0 = (\<lambda>h c. Result ''success'' ''Container restarted'')"
    by (simp_all add: cl0_def)
  show ?thesis
    using dispatch_json_exits_after_first[OF h, of args_json cl0]
      dispatch_json_exits_after_first[OF h, of args0 cl0] j
    by (simp add: m i c)
qed

end
